theory Spec2Isabelle
  imports Complex_Main "HOL-Library.Word"
begin

section \<open>Errors and decimal amounts\<close>

text \<open>
  Every \<^verbatim>\<open>throw\<close> of the source is a value of \<open>error\<close>; a function that can throw
  returns \<open>error + 'a\<close> with \<open>Inl\<close> for the error.
  \<^item> \<open>Error m\<close> is \<^verbatim>\<open>new Error(m)\<close>;
  \<^item> \<open>MustStakeAtLeast a c\<close> is \<^verbatim>\<open>new Error(`Must stake at least ${a} ${c}`)\<close>;
  \<^item> \<open>InsufficientFundsError c\<close> is \<^verbatim>\<open>new InsufficientFundsError({ currencyCode: c })\<close>;
  \<^item> \<open>TypeError m\<close> is the error the JavaScript runtime raises on a property read of
    \<^verbatim>\<open>undefined\<close> or a call of a non-function.
\<close>

type_synonym amount = rat

datatype error =
    Error string
  | MustStakeAtLeast amount string
  | InsufficientFundsError string
  | TypeError string

text \<open>
  Amounts are the decimal strings of \<^verbatim>\<open>biggystring\<close>, an arbitrary-precision library the
  repository imports. They are modelled by the number they denote. \<^verbatim>\<open>add\<close>, \<^verbatim>\<open>sub\<close>,
  \<^verbatim>\<open>mul\<close>, \<^verbatim>\<open>lt\<close> and \<^verbatim>\<open>max\<close> are exact; \<^verbatim>\<open>div(x, y, p)\<close> keeps \<open>p\<close> decimals of
  the quotient and drops the rest, and throws on a zero divisor; \<^verbatim>\<open>toFixed(x, 0, 0)\<close>
  drops all decimals. The names carry the suffix \<open>_bs\<close> where they clash with HOL's.
\<close>

definition truncate_at :: "nat \<Rightarrow> amount \<Rightarrow> amount" where
  "truncate_at p x =
     (if 0 \<le> x then of_int \<lfloor>x * 10 ^ p\<rfloor> / 10 ^ p
      else - (of_int \<lfloor>- x * 10 ^ p\<rfloor> / 10 ^ p))"

definition add_bs :: "amount \<Rightarrow> amount \<Rightarrow> amount" where
  "add_bs x y = x + y"

definition sub_bs :: "amount \<Rightarrow> amount \<Rightarrow> amount" where
  "sub_bs x y = x - y"

definition mul_bs :: "amount \<Rightarrow> amount \<Rightarrow> amount" where
  "mul_bs x y = x * y"

definition lt_bs :: "amount \<Rightarrow> amount \<Rightarrow> bool" where
  "lt_bs x y = (x < y)"

definition max_bs :: "amount \<Rightarrow> amount \<Rightarrow> amount" where
  "max_bs x y = (if x < y then y else x)"

definition div_bs :: "amount \<Rightarrow> amount \<Rightarrow> nat \<Rightarrow> error + amount" where
  "div_bs x y p =
     (if y = 0 then Inl (Error ''Assertion failed'') else Inr (truncate_at p (x / y)))"

definition toFixed :: "amount \<Rightarrow> nat \<Rightarrow> nat \<Rightarrow> amount" where
  "toFixed x minPrecision maxPrecision = truncate_at maxPrecision x"

section \<open>Action queue: \<^verbatim>\<open>controllers/action-queue/types.ts\<close>\<close>

subsection \<open>Action operations\<close>

datatype ActionOpTypes =
    T_seq | T_par | T_wyre_buy | T_wyre_sell | T_loan_borrow | T_loan_deposit
  | T_loan_repay | T_loan_withdraw | T_swap | T_toast | T_delay

text \<open>The string literal each member of the union \<^verbatim>\<open>ActionOpTypes\<close> stands for.\<close>

fun tagOf :: "ActionOpTypes \<Rightarrow> string" where
  "tagOf T_seq = ''seq''"
| "tagOf T_par = ''par''"
| "tagOf T_wyre_buy = ''wyre-buy''"
| "tagOf T_wyre_sell = ''wyre-sell''"
| "tagOf T_loan_borrow = ''loan-borrow''"
| "tagOf T_loan_deposit = ''loan-deposit''"
| "tagOf T_loan_repay = ''loan-repay''"
| "tagOf T_loan_withdraw = ''loan-withdraw''"
| "tagOf T_swap = ''swap''"
| "tagOf T_toast = ''toast''"
| "tagOf T_delay = ''delay''"

definition allActionOpTypes :: "ActionOpTypes list" where
  "allActionOpTypes =
     [T_seq, T_par, T_wyre_buy, T_wyre_sell, T_loan_borrow, T_loan_deposit,
      T_loan_repay, T_loan_withdraw, T_swap, T_toast, T_delay]"

text \<open>A string is a value of the type \<^verbatim>\<open>ActionOpTypes\<close> when it is one of its literals.\<close>

definition isActionOpType :: "string \<Rightarrow> bool" where
  "isActionOpType t = (t \<in> set (map tagOf allActionOpTypes))"

datatype AmountFor = From | To

text \<open>
  The ten interfaces of the union \<^verbatim>\<open>ActionOp\<close>, fields in the order of the source;
  an optional field is an \<open>option\<close>, \<^verbatim>\<open>Uint8Array\<close> a list of bytes.
\<close>

datatype ActionOp =
    SeqActionOp (actions: "ActionOp list")
  | ParActionOp (actions: "ActionOp list")
  | BroadcastTxActionOp string "8 word list"
  | WyreBuyActionOp string string "string option"
  | WyreSellActionOp string string string "string option"
  | LoanBorrowActionOp string string string "string option"
  | LoanDepositActionOp string string string "string option"
  | LoanRepayActionOp string string string "string option" "string option"
  | LoanWithdrawActionOp string string string "string option"
  | SwapActionOp AmountFor "string option" string string "string option" string

text \<open>The \<^verbatim>\<open>type\<close> field of each interface.\<close>

fun type_ActionOp :: "ActionOp \<Rightarrow> string" where
  "type_ActionOp (SeqActionOp _) = ''seq''"
| "type_ActionOp (ParActionOp _) = ''par''"
| "type_ActionOp (BroadcastTxActionOp _ _) = ''broadcast-tx''"
| "type_ActionOp (WyreBuyActionOp _ _ _) = ''wyre-buy''"
| "type_ActionOp (WyreSellActionOp _ _ _ _) = ''wyre-sell''"
| "type_ActionOp (LoanBorrowActionOp _ _ _ _) = ''loan-borrow''"
| "type_ActionOp (LoanDepositActionOp _ _ _ _) = ''loan-deposit''"
| "type_ActionOp (LoanRepayActionOp _ _ _ _ _) = ''loan-repay''"
| "type_ActionOp (LoanWithdrawActionOp _ _ _ _) = ''loan-withdraw''"
| "type_ActionOp (SwapActionOp _ _ _ _ _ _) = ''swap''"

subsection \<open>Action effects\<close>

text \<open>
  \<^verbatim>\<open>opIndex\<close> and \<^verbatim>\<open>confirmations\<close> are JavaScript numbers used as counters, here
  integers; the rates of a price level are numbers too, here rationals.
\<close>

datatype ActionEffect =
    SeqEffect int "ActionEffect option list"
  | ParEffect "ActionEffect option list"
  | AddressBalanceEffect string "amount option" "amount option" string "string option"
  | PushEventEffect string "ActionEffect option"
  | PriceLevelEffect string "rat option" "rat option"
  | TxConfsEffect string string int
  | DoneEffect "error option" "bool option"

record EffectCheckResult =
  delay :: int
  isEffective :: bool
  updatedEffect :: "ActionEffect option"

subsection \<open>Action programs and their state\<close>

record ActionProgram =
  programId :: string
  actionOp :: ActionOp
  mockMode :: "bool option"

record ActionProgramState =
  clientId :: string
  st_programId :: string
  effect :: "ActionEffect option"
  effective :: bool
  executing :: bool
  lastExecutionTime :: int
  nextExecutionTime :: int

section \<open>Thorchain Savers stake plugin: the plugin's types\<close>

text \<open>
  The interfaces of the stake plugin types that \<^verbatim>\<open>tcSavers.ts\<close> reads or builds.
  Record fields carry a short prefix where two interfaces share a field name.
  Optional fields that \<^verbatim>\<open>tcSavers.ts\<close> never reads or writes (the warnings of a
  policy, \<^verbatim>\<open>quoteInfo\<close>, \<^verbatim>\<open>locktime\<close>) are left out.
\<close>

record AssetId =
  a_pluginId :: string
  a_currencyCode :: string

record StakeProviderInfo =
  displayName :: string
  sp_pluginId :: string
  stakeProviderId :: string

record StakePolicy =
  stakePolicyId :: string
  stakeProviderInfo :: "StakeProviderInfo option"
  apy :: rat
  rewardAssets :: "AssetId list"
  stakeAssets :: "AssetId list"

datatype ChangeAction = Stake | Unstake | Claim | UnstakeExact

datatype QuoteAllocationType = QStake | QUnstake | QClaim | QFee

record QuoteAllocation =
  q_allocationType :: QuoteAllocationType
  q_pluginId :: string
  q_currencyCode :: string
  q_nativeAmount :: amount

datatype PositionAllocationType = Staked | Unstaked | Earned

record PositionAllocation =
  p_pluginId :: string
  p_currencyCode :: string
  p_allocationType :: PositionAllocationType
  p_nativeAmount :: amount

record StakePosition =
  allocations :: "PositionAllocation list"
  canStake :: bool
  canUnstake :: bool
  canClaim :: bool

subsection \<open>The wallet capability\<close>

text \<open>
  \<^verbatim>\<open>EdgeCurrencyWallet\<close> belongs to the core library, not to this repository. The model
  takes what the plugin reads of it as a record: the two fields of \<^verbatim>\<open>currencyInfo\<close>,
  the balance table, and the result of every method the plugin awaits (a rejected promise
  is \<open>Inl\<close>).
\<close>

record ReceiveAddress =
  publicAddress :: string
  nativeBalance :: "amount option"
  segwitAddress :: "string option"
  segwitNativeBalance :: "amount option"

record SpendInfo =
  target_publicAddress :: string
  target_nativeAmount :: amount
  outputSortTargets :: bool
  utxoSourceAddress :: "string option"
  forceChangeAddress :: "string option"
  metadata :: "(string \<times> string) option"

record EdgeTransaction =
  networkFee :: amount
  txid :: string

record EdgeCurrencyWallet =
  w_pluginId :: string
  w_currencyCode :: string
  balances :: "string \<rightharpoonup> amount"
  nativeToDenomination :: "amount \<Rightarrow> string \<Rightarrow> error + amount"
  denominationToNative :: "amount \<Rightarrow> string \<Rightarrow> error + amount"
  getReceiveAddress :: "string \<Rightarrow> error + ReceiveAddress"
  makeSpend :: "SpendInfo \<Rightarrow> error + EdgeTransaction"
  signTx :: "EdgeTransaction \<Rightarrow> error + EdgeTransaction"
  broadcastTx :: "EdgeTransaction \<Rightarrow> error + EdgeTransaction"
  saveTx :: "EdgeTransaction \<Rightarrow> error + unit"

record ChangeQuoteRequest =
  rq_action :: ChangeAction
  rq_stakePolicyId :: string
  rq_currencyCode :: string
  rq_nativeAmount :: amount
  rq_wallet :: EdgeCurrencyWallet

record StakePositionRequest =
  pr_stakePolicyId :: string
  pr_wallet :: EdgeCurrencyWallet

text \<open>
  The \<^verbatim>\<open>approve\<close> closure of a quote, as the variables it captured: a stake quote
  captures the wallet, whether the primary address needs funding, the network fee, the
  primary and pool addresses and the amount; an unstake or claim quote does nothing.
\<close>

datatype Approve =
    ApproveStake EdgeCurrencyWallet bool amount string string amount
  | ApproveNothing

record ChangeQuote =
  cq_allocations :: "QuoteAllocation list"
  approve :: Approve

subsection \<open>The network and the payloads\<close>

record Saver =
  s_asset :: string
  asset_address :: string
  last_add_height :: int
  units :: amount
  asset_deposit_value :: amount

record Pool =
  pl_asset :: string
  status :: string
  assetPrice :: amount
  assetPriceUSD :: amount
  assetDepth :: amount
  saversDepth :: amount
  saversUnits :: amount
  runeDepth :: amount

record InboundAddress =
  ia_address :: string
  chain :: string
  outbound_fee :: string
  synth_mint_paused :: "bool option"
  halted :: bool

record ExchangeInfo =
  ei_midgardServers :: "string list"
  ei_thornodeServers :: "string list option"
  ei_nineRealmsServers :: "string list option"
  ei_thorSwapServers :: "string list option"

record QuoteDeposit =
  expected_amount_out :: amount
  inbound_address :: string

text \<open>
  A JSON payload is the shape it has. Each cleaner (\<^verbatim>\<open>asSavers\<close>, \<^verbatim>\<open>asPools\<close>, ...)
  returns the payload of its own shape and throws on any other. The numeric strings of a
  payload are amounts: a string that is no number makes \<^verbatim>\<open>biggystring\<close> throw, which
  the model counts as a payload of another shape.
\<close>

datatype Json =
    JSavers "Saver list"
  | JPools "Pool list"
  | JInboundAddresses "InboundAddress list"
  | JExchangeInfo ExchangeInfo
  | JInfoServerResponse "(string \<times> rat) list"
  | JOther

definition asSavers :: "Json \<Rightarrow> error + Saver list" where
  "asSavers j = (case j of JSavers xs \<Rightarrow> Inr xs | _ \<Rightarrow> Inl (TypeError ''asSavers''))"

definition asPools :: "Json \<Rightarrow> error + Pool list" where
  "asPools j = (case j of JPools xs \<Rightarrow> Inr xs | _ \<Rightarrow> Inl (TypeError ''asPools''))"

definition asInboundAddresses :: "Json \<Rightarrow> error + InboundAddress list" where
  "asInboundAddresses j =
     (case j of JInboundAddresses xs \<Rightarrow> Inr xs | _ \<Rightarrow> Inl (TypeError ''asInboundAddresses''))"

definition asExchangeInfo :: "Json \<Rightarrow> error + ExchangeInfo" where
  "asExchangeInfo j =
     (case j of JExchangeInfo x \<Rightarrow> Inr x | _ \<Rightarrow> Inl (TypeError ''asExchangeInfo''))"

definition asInfoServerResponse :: "Json \<Rightarrow> error + (string \<times> rat) list" where
  "asInfoServerResponse j =
     (case j of JInfoServerResponse x \<Rightarrow> Inr x | _ \<Rightarrow> Inl (TypeError ''asInfoServerResponse''))"

record Response =
  ok :: bool
  text_of :: "error + string"
  json :: "error + Json"

text \<open>The request paths; the deposit quote's path carries asset, address and amount.\<close>

datatype path =
    PoolSavers string
  | V2Pools
  | V2InboundAddresses
  | QuoteSaverDeposit string string amount

text \<open>
  What the outside world answers during one call of the plugin: the clock and the result
  of every network helper (\<^verbatim>\<open>util/network\<close>), by its arguments.
\<close>

record Env =
  now :: int
  fetchInfo :: "string \<Rightarrow> error + Response"
  fetchWaterfall :: "string list \<Rightarrow> path \<Rightarrow> error + Response"
  cleanMultiFetch :: "string list \<Rightarrow> path \<Rightarrow> error + QuoteDeposit"

text \<open>Every call that leaves the plugin is recorded, in order.\<close>

datatype event =
    EvFetchInfo string
  | EvFetchWaterfall "string list" path
  | EvCleanMultiFetch "string list" path
  | EvGetReceiveAddress string
  | EvMakeSpend SpendInfo
  | EvSignTx EdgeTransaction
  | EvBroadcastTx EdgeTransaction
  | EvSaveTx EdgeTransaction
  | EvConsole string

text \<open>
  The module-level variables of \<^verbatim>\<open>tcSavers.ts\<close> (the policies, whose \<^verbatim>\<open>apy\<close> is
  assigned, and the caches), and the calls made so far.
\<close>

record ModuleState =
  policies :: "StakePolicy list"
  exchangeInfo :: "ExchangeInfo option"
  exchangeInfoLastUpdate :: int
  inboundAddresses :: "InboundAddress list option"
  midgardServers :: "string list"
  thornodeServers :: "string list"
  inboundAddressesLastUpdate :: int
  trace :: "event list"

definition emit :: "event \<Rightarrow> ModuleState \<Rightarrow> ModuleState" where
  "emit e s = s\<lparr>trace := trace s @ [e]\<rparr>"

section \<open>Thorchain Savers stake plugin: \<^verbatim>\<open>tcSavers.ts\<close>\<close>

subsection \<open>Constants\<close>

definition EXCHANGE_INFO_UPDATE_FREQ_MS :: int where
  "EXCHANGE_INFO_UPDATE_FREQ_MS = 10 * 60 * 1000"

definition INBOUND_ADDRESSES_UPDATE_FREQ_MS :: int where
  "INBOUND_ADDRESSES_UPDATE_FREQ_MS = 10 * 60 * 1000"

definition MIDGARD_SERVERS_DEFAULT :: "string list" where
  "MIDGARD_SERVERS_DEFAULT = [''https://midgard.thorchain.info'']"

definition THORNODE_SERVERS_DEFAULT :: "string list" where
  "THORNODE_SERVERS_DEFAULT = [''https://thornode.ninerealms.com'']"

definition TC_SAVERS_WITHDRAWAL_SCALE_UNITS :: amount where
  "TC_SAVERS_WITHDRAWAL_SCALE_UNITS = 10000"

definition DIVIDE_PRECISION :: nat where
  "DIVIDE_PRECISION = 18"

definition THOR_LIMIT_UNITS :: amount where
  "THOR_LIMIT_UNITS = 100000000"

datatype PolicyCurrencyType = Utxo | Evm

record PolicyCurrencyInfo =
  pc_type :: PolicyCurrencyType
  minAmount :: amount

definition utxoInfo :: PolicyCurrencyInfo where
  "utxoInfo = \<lparr>pc_type = Utxo, minAmount = 10000\<rparr>"

definition evmInfo :: PolicyCurrencyInfo where
  "evmInfo = \<lparr>pc_type = Evm, minAmount = 0\<rparr>"

definition policyCurrencyInfos :: "string \<rightharpoonup> PolicyCurrencyInfo" where
  "policyCurrencyInfos = map_of
     [(''avalanche'', evmInfo),
      (''bitcoin'', utxoInfo),
      (''bitcoincash'', utxoInfo),
      (''dogecoin'', utxoInfo\<lparr>minAmount := 100000000\<rparr>),
      (''ethereum'', evmInfo),
      (''litecoin'', utxoInfo)]"

definition tcStakeProviderInfo :: StakeProviderInfo where
  "tcStakeProviderInfo =
     \<lparr>displayName = ''Thorchain Savers'', sp_pluginId = ''thorchain'',
      stakeProviderId = ''tcsavers''\<rparr>"

definition mkPolicy :: "string \<Rightarrow> string \<Rightarrow> string \<Rightarrow> StakePolicy" where
  "mkPolicy policyId pluginId currencyCode =
     \<lparr>stakePolicyId = policyId, stakeProviderInfo = Some tcStakeProviderInfo, apy = 0,
      rewardAssets = [\<lparr>a_pluginId = pluginId, a_currencyCode = currencyCode\<rparr>],
      stakeAssets = [\<lparr>a_pluginId = pluginId, a_currencyCode = currencyCode\<rparr>]\<rparr>"

text \<open>The array \<^verbatim>\<open>policies\<close> as the module declares it.\<close>

definition policies0 :: "StakePolicy list" where
  "policies0 =
     [mkPolicy ''tcsavers/bitcoin:btc=bitcoin:btc'' ''bitcoin'' ''BTC'',
      mkPolicy ''tcsavers/litecoin:ltc=litecoin:ltc'' ''litecoin'' ''LTC'',
      mkPolicy ''tcsavers/bitcoincash:bch=bitcoincash:bch'' ''bitcoincash'' ''BCH'',
      mkPolicy ''tcsavers/dogecoin:doge=dogecoin:doge'' ''dogecoin'' ''DOGE'',
      mkPolicy ''tcsavers/ethereum:eth=ethereum:eth'' ''ethereum'' ''ETH'',
      mkPolicy ''tcsavers/avalanche:avax=avalanche:avax'' ''avalanche'' ''AVAX'']"

definition MAINNET_CODE_TRANSCRIPTION :: "string \<rightharpoonup> string" where
  "MAINNET_CODE_TRANSCRIPTION = map_of
     [(''bitcoin'', ''BTC''),
      (''bitcoincash'', ''BCH''),
      (''binancechain'', ''BNB''),
      (''litecoin'', ''LTC''),
      (''ethereum'', ''ETH''),
      (''dogecoin'', ''DOGE''),
      (''avalanche'', ''AVAX''),
      (''thorchain'', ''THOR'')]"

text \<open>The module's variables when it is loaded.\<close>

definition initialState :: ModuleState where
  "initialState =
     \<lparr>policies = policies0, exchangeInfo = None, exchangeInfoLastUpdate = 0,
      inboundAddresses = None, midgardServers = MIDGARD_SERVERS_DEFAULT,
      thornodeServers = THORNODE_SERVERS_DEFAULT, inboundAddressesLastUpdate = 0,
      trace = []\<rparr>"

text \<open>A template literal prints an \<^verbatim>\<open>undefined\<close> value as the word.\<close>

definition template :: "string option \<Rightarrow> string" where
  "template v = (case v of None \<Rightarrow> ''undefined'' | Some x \<Rightarrow> x)"

text \<open>\<^verbatim>\<open>String.prototype.toLowerCase\<close> on the ASCII letters addresses are written in.\<close>

definition lowerOf :: "char \<rightharpoonup> char" where
  "lowerOf = map_of (zip ''ABCDEFGHIJKLMNOPQRSTUVWXYZ'' ''abcdefghijklmnopqrstuvwxyz'')"

definition toLowerCase :: "string \<Rightarrow> string" where
  "toLowerCase str = map (\<lambda>c. case lowerOf c of None \<Rightarrow> c | Some l \<Rightarrow> l) str"

subsection \<open>Helpers\<close>

definition updatePolicyApys :: "(string \<times> rat) list \<Rightarrow> StakePolicy list \<Rightarrow> StakePolicy list" where
  "updatePolicyApys infoServerResponse ps =
     map (\<lambda>policy. case map_of infoServerResponse (stakePolicyId policy) of
                      None \<Rightarrow> policy
                    | Some a \<Rightarrow> policy\<lparr>apy := a\<rparr>) ps"

definition getPolicyFromId :: "ModuleState \<Rightarrow> string \<Rightarrow> error + StakePolicy" where
  "getPolicyFromId s policyId =
     (case find (\<lambda>policy. stakePolicyId policy = policyId) (policies s) of
        None \<Rightarrow> Inl (Error (''Cannot find policy '' @ policyId))
      | Some policy \<Rightarrow> Inr policy)"

definition getPrimaryAddress ::
  "EdgeCurrencyWallet \<Rightarrow> string \<Rightarrow> ModuleState \<Rightarrow> (error + string \<times> amount) \<times> ModuleState" where
  "getPrimaryAddress wallet currencyCode s =
     (let s1 = emit (EvGetReceiveAddress currencyCode) s in
      case getReceiveAddress wallet currencyCode of
        Inl e \<Rightarrow> (Inl e, s1)
      | Inr r \<Rightarrow>
          let primaryAddress = (case segwitAddress r of Some a \<Rightarrow> a | None \<Rightarrow> publicAddress r);
              addressBalance =
                (case segwitAddress r of
                   Some a \<Rightarrow> (case segwitNativeBalance r of Some b \<Rightarrow> b | None \<Rightarrow> 0)
                 | None \<Rightarrow> (case nativeBalance r of Some b \<Rightarrow> b | None \<Rightarrow> 0))
          in (Inr (primaryAddress, addressBalance), s1))"

text \<open>
  \<^verbatim>\<open>updateInboundAddresses\<close>: the exchange info is refreshed when stale or missing, and a
  failure there is logged and swallowed; the server lists follow the exchange info; the
  inbound addresses are refreshed when stale or missing, and a failure there throws.
\<close>

definition refreshExchangeInfo :: "Env \<Rightarrow> ModuleState \<Rightarrow> ModuleState" where
  "refreshExchangeInfo env s =
     (if now env - exchangeInfoLastUpdate s > EXCHANGE_INFO_UPDATE_FREQ_MS \<or> exchangeInfo s = None
      then
        let s1 = emit (EvFetchInfo ''v1/exchangeInfo/edge'') s;
            failed = emit (EvConsole ''Error getting info server exchangeInfo. Using defaults...'') s1
        in case fetchInfo env ''v1/exchangeInfo/edge'' of
             Inl e \<Rightarrow> failed
           | Inr exchangeInfoResponse \<Rightarrow>
               if ok exchangeInfoResponse then
                 (case json exchangeInfoResponse of
                    Inl e \<Rightarrow> failed
                  | Inr responseJson \<Rightarrow>
                      (case asExchangeInfo responseJson of
                         Inl e \<Rightarrow> failed
                       | Inr info \<Rightarrow>
                           s1\<lparr>exchangeInfo := Some info, exchangeInfoLastUpdate := now env\<rparr>))
               else failed
      else s)"

definition useExchangeInfoServers :: "ModuleState \<Rightarrow> ModuleState" where
  "useExchangeInfoServers s =
     (case exchangeInfo s of
        None \<Rightarrow> s
      | Some info \<Rightarrow>
          s\<lparr>midgardServers := ei_midgardServers info,
            thornodeServers :=
              (case ei_thornodeServers info of None \<Rightarrow> thornodeServers s | Some t \<Rightarrow> t)\<rparr>)"

definition updateInboundAddresses :: "Env \<Rightarrow> ModuleState \<Rightarrow> (error + unit) \<times> ModuleState" where
  "updateInboundAddresses env s =
     (let s2 = useExchangeInfoServers (refreshExchangeInfo env s) in
      if now env - inboundAddressesLastUpdate s2 > INBOUND_ADDRESSES_UPDATE_FREQ_MS
           \<or> inboundAddresses s2 = None
      then
        let s3 = emit (EvFetchWaterfall (midgardServers s2) V2InboundAddresses) s2 in
        case fetchWaterfall env (midgardServers s2) V2InboundAddresses of
          Inl e \<Rightarrow> (Inl e, s3)
        | Inr iaResponse \<Rightarrow>
            if \<not> ok iaResponse then
              (case text_of iaResponse of
                 Inl e \<Rightarrow> (Inl e, s3)
               | Inr responseText \<Rightarrow>
                   (Inl (Error (''Thorchain could not fetch inbound_addresses: '' @ responseText)), s3))
            else
              (case json iaResponse of
                 Inl e \<Rightarrow> (Inl e, s3)
               | Inr iaJson \<Rightarrow>
                   (case asInboundAddresses iaJson of
                      Inl e \<Rightarrow> (Inl e, s3)
                    | Inr ia \<Rightarrow>
                        (Inr (), s3\<lparr>inboundAddresses := Some ia,
                                    inboundAddressesLastUpdate := now env\<rparr>)))
      else (Inr (), s2))"

subsection \<open>\<^verbatim>\<open>stakeRequest\<close>\<close>

text \<open>
  Lines 310 to 326: the currency info of the wallet's plugin, the conversion of the
  amount, the minimum stake and the wallet balance. Nothing leaves the plugin here but
  the conversion the wallet is asked for, which changes nothing. The result is the wallet
  balance and \<^verbatim>\<open>thorAmount\<close>.
\<close>

definition stakeRequest_checks :: "ChangeQuoteRequest \<Rightarrow> error + amount \<times> amount" where
  "stakeRequest_checks request =
     (let wallet = rq_wallet request;
          nativeAmount = rq_nativeAmount request;
          currencyCode = rq_currencyCode request;
          pluginId = w_pluginId wallet
      in case policyCurrencyInfos pluginId of
           None \<Rightarrow> Inl (TypeError ''Cannot destructure property minAmount of undefined'')
         | Some policyCurrencyInfo \<Rightarrow>
             let walletBalance = balances wallet currencyCode;
                 minStakeAmount =
                   add_bs (minAmount policyCurrencyInfo) TC_SAVERS_WITHDRAWAL_SCALE_UNITS
             in (case nativeToDenomination wallet nativeAmount currencyCode of
                  Inl e \<Rightarrow> Inl e
                | Inr exchangeAmount \<Rightarrow>
                    let thorAmount = toFixed (mul_bs exchangeAmount THOR_LIMIT_UNITS) 0 0 in
                    if lt_bs nativeAmount minStakeAmount
                    then Inl (MustStakeAtLeast exchangeAmount currencyCode)
                    else
                      (case walletBalance of
                         None \<Rightarrow> Inl (TypeError ''Cannot read properties of undefined'')
                       | Some balance \<Rightarrow>
                           if lt_bs balance nativeAmount
                           then Inl (InsufficientFundsError currencyCode)
                           else Inr (balance, thorAmount))))"

text \<open>
  Lines 328 to 340: the inbound addresses, the primary address and the deposit quote.
  The result is the primary address, its balance, the pool address and the slippage in
  native units.
\<close>

definition stakeRequest_quote ::
  "Env \<Rightarrow> ChangeQuoteRequest \<Rightarrow> amount \<Rightarrow> ModuleState
     \<Rightarrow> (error + string \<times> amount \<times> string \<times> amount) \<times> ModuleState" where
  "stakeRequest_quote env request thorAmount s =
     (let wallet = rq_wallet request; currencyCode = rq_currencyCode request in
      case updateInboundAddresses env s of
        (Inl e, s1) \<Rightarrow> (Inl e, s1)
      | (Inr u, s1) \<Rightarrow>
          let mainnetCode = MAINNET_CODE_TRANSCRIPTION (w_pluginId wallet) in
          (case getPrimaryAddress wallet currencyCode s1 of
             (Inl e, s2) \<Rightarrow> (Inl e, s2)
           | (Inr (primaryAddress, addressBalance), s2) \<Rightarrow>
               let asset = template mainnetCode @ ''.'' @ template mainnetCode;
                   path = QuoteSaverDeposit asset primaryAddress thorAmount;
                   s3 = emit (EvCleanMultiFetch (thornodeServers s2) path) s2
               in (case cleanMultiFetch env (thornodeServers s2) path of
                     Inl e \<Rightarrow> (Inl e, s3)
                   | Inr quoteDeposit \<Rightarrow>
                       let poolAddress = inbound_address quoteDeposit;
                           slippageThorAmount = sub_bs thorAmount (expected_amount_out quoteDeposit)
                       in (case div_bs slippageThorAmount THOR_LIMIT_UNITS DIVIDE_PRECISION of
                             Inl e \<Rightarrow> (Inl e, s3)
                           | Inr slippageDisplayAmount \<Rightarrow>
                               (case denominationToNative wallet slippageDisplayAmount currencyCode of
                                  Inl e \<Rightarrow> (Inl e, s3)
                                | Inr slippageNativeAmount \<Rightarrow>
                                    (Inr (primaryAddress, addressBalance, poolAddress,
                                          slippageNativeAmount), s3))))))"

definition isInsufficientFundsError :: "error \<Rightarrow> bool" where
  "isInsufficientFundsError e = (case e of InsufficientFundsError c \<Rightarrow> True | _ \<Rightarrow> False)"

definition poolSpend :: "string \<Rightarrow> amount \<Rightarrow> string \<Rightarrow> (string \<times> string) option \<Rightarrow> SpendInfo" where
  "poolSpend poolAddress nativeAmount primaryAddress md =
     \<lparr>target_publicAddress = poolAddress, target_nativeAmount = nativeAmount,
      outputSortTargets = True, utxoSourceAddress = Some primaryAddress,
      forceChangeAddress = Some primaryAddress, metadata = md\<rparr>"

definition fundingSpend :: "string \<Rightarrow> amount \<Rightarrow> string option \<Rightarrow> (string \<times> string) option \<Rightarrow> SpendInfo" where
  "fundingSpend primaryAddress amt change md =
     \<lparr>target_publicAddress = primaryAddress, target_nativeAmount = amt,
      outputSortTargets = False, utxoSourceAddress = None,
      forceChangeAddress = change, metadata = md\<rparr>"

text \<open>
  Lines 341 to 362: whether the primary address must be funded first, and the network
  fee of the direct spend. An error of the estimate is caught: an
  \<^verbatim>\<open>InsufficientFundsError\<close> asks for funding, any other is dropped.
\<close>

definition stakeRequest_estimate ::
  "ChangeQuoteRequest \<Rightarrow> string \<Rightarrow> amount \<Rightarrow> string \<Rightarrow> ModuleState
     \<Rightarrow> (bool \<times> amount) \<times> ModuleState" where
  "stakeRequest_estimate request primaryAddress addressBalance poolAddress s =
     (let wallet = rq_wallet request; nativeAmount = rq_nativeAmount request in
      if lt_bs addressBalance nativeAmount then ((True, 0), s)
      else
        let spend = poolSpend poolAddress nativeAmount primaryAddress None;
            s1 = emit (EvMakeSpend spend) s
        in case makeSpend wallet spend of
             Inr estimateTx \<Rightarrow> ((False, networkFee estimateTx), s1)
           | Inl e \<Rightarrow> ((isInsufficientFundsError e, 0), s1))"

text \<open>
  Lines 364 to 378: when the primary address needs funding, the fee of the funding
  transaction is estimated and the wallet must hold the amount and twice that fee.
  The result is the network fee.
\<close>

definition stakeRequest_funding ::
  "ChangeQuoteRequest \<Rightarrow> amount \<Rightarrow> string \<Rightarrow> bool \<Rightarrow> amount \<Rightarrow> ModuleState
     \<Rightarrow> (error + amount) \<times> ModuleState" where
  "stakeRequest_funding request walletBalance primaryAddress needsFundingPrimary fee s =
     (let wallet = rq_wallet request; nativeAmount = rq_nativeAmount request in
      if needsFundingPrimary then
        let spend = fundingSpend primaryAddress nativeAmount None None;
            s1 = emit (EvMakeSpend spend) s
        in case makeSpend wallet spend of
             Inl e \<Rightarrow> (Inl e, s1)
           | Inr estimateTx \<Rightarrow>
               let remainingBalance =
                     sub_bs (sub_bs walletBalance (mul_bs (networkFee estimateTx) 2)) nativeAmount
               in if lt_bs remainingBalance 0
                  then (Inl (InsufficientFundsError (rq_currencyCode request)), s1)
                  else (Inr (networkFee estimateTx), s1)
      else (Inr fee, s))"

text \<open>The whole of \<^verbatim>\<open>stakeRequest\<close>, lines 309 to 429.\<close>

definition stakeRequest ::
  "Env \<Rightarrow> ChangeQuoteRequest \<Rightarrow> StakePolicy \<Rightarrow> ModuleState
     \<Rightarrow> (error + ChangeQuote) \<times> ModuleState" where
  "stakeRequest env request policy s =
     (let wallet = rq_wallet request;
          nativeAmount = rq_nativeAmount request;
          currencyCode = rq_currencyCode request;
          pluginId = w_pluginId wallet
      in case stakeRequest_checks request of
           Inl e \<Rightarrow> (Inl e, s)
         | Inr (walletBalance, thorAmount) \<Rightarrow>
             (case stakeRequest_quote env request thorAmount s of
                (Inl e, s1) \<Rightarrow> (Inl e, s1)
              | (Inr (primaryAddress, addressBalance, poolAddress, slippageNativeAmount), s1) \<Rightarrow>
                  (case stakeRequest_estimate request primaryAddress addressBalance poolAddress s1 of
                     ((needsFundingPrimary, fee), s2) \<Rightarrow>
                       (case stakeRequest_funding request walletBalance primaryAddress
                               needsFundingPrimary fee s2 of
                          (Inl e, s3) \<Rightarrow> (Inl e, s3)
                        | (Inr fee', s3) \<Rightarrow>
                            let totalFee =
                                  add_bs slippageNativeAmount
                                    (if needsFundingPrimary then mul_bs fee' 2 else fee')
                            in (Inr \<lparr>cq_allocations =
                                       [\<lparr>q_allocationType = QStake, q_pluginId = pluginId,
                                         q_currencyCode = currencyCode,
                                         q_nativeAmount = nativeAmount\<rparr>,
                                        \<lparr>q_allocationType = QFee, q_pluginId = pluginId,
                                         q_currencyCode = currencyCode,
                                         q_nativeAmount = toFixed totalFee 0 0\<rparr>],
                                     approve =
                                       ApproveStake wallet needsFundingPrimary fee'
                                         primaryAddress poolAddress nativeAmount\<rparr>, s3)))))"

subsection \<open>\<^verbatim>\<open>unstakeRequest\<close> and \<^verbatim>\<open>fetchChangeQuote\<close>\<close>

definition unstakeRequest ::
  "ChangeQuoteRequest \<Rightarrow> StakePolicy \<Rightarrow> ModuleState \<Rightarrow> (error + ChangeQuote) \<times> ModuleState" where
  "unstakeRequest request policy s =
     (case stakeAssets policy of
        [] \<Rightarrow> (Inl (TypeError ''Cannot destructure property pluginId of undefined''), s)
      | a # rest \<Rightarrow>
          (Inr \<lparr>cq_allocations =
                  [\<lparr>q_allocationType = QUnstake, q_pluginId = a_pluginId a,
                    q_currencyCode = a_currencyCode a, q_nativeAmount = 0\<rparr>],
                approve = ApproveNothing\<rparr>, s))"

text \<open>
  \<^verbatim>\<open>changeQuoteFuncs\<close> has the keys \<^verbatim>\<open>stake\<close>, \<^verbatim>\<open>unstake\<close> and \<^verbatim>\<open>claim\<close>; the action
  \<^verbatim>\<open>unstakeExact\<close> finds no function there, and calling \<^verbatim>\<open>undefined\<close> throws.
\<close>

definition fetchChangeQuote ::
  "Env \<Rightarrow> ChangeQuoteRequest \<Rightarrow> ModuleState \<Rightarrow> (error + ChangeQuote) \<times> ModuleState" where
  "fetchChangeQuote env request s =
     (let wallet = rq_wallet request; currencyCode = rq_currencyCode request in
      case getPolicyFromId s (rq_stakePolicyId request) of
        Inl e \<Rightarrow> (Inl e, s)
      | Inr policy \<Rightarrow>
          (case stakeAssets policy of
             [] \<Rightarrow> (Inl (TypeError ''Cannot destructure property pluginId of undefined''), s)
           | a # rest \<Rightarrow>
               if currencyCode \<noteq> a_currencyCode a
               then (Inl (Error ''Currency code mismatch between request and policy''), s)
               else if a_pluginId a \<noteq> w_pluginId wallet
               then (Inl (Error ''pluginId mismatch between request and policy''), s)
               else if currencyCode \<noteq> w_currencyCode wallet
               then (Inl (Error ''Only mainnet coins supported for staking''), s)
               else
                 (case rq_action request of
                    Stake \<Rightarrow> stakeRequest env request policy s
                  | Unstake \<Rightarrow> unstakeRequest request policy s
                  | Claim \<Rightarrow> unstakeRequest request policy s
                  | UnstakeExact \<Rightarrow>
                      (Inl (TypeError ''changeQuoteFuncs[action] is not a function''), s))))"

subsection \<open>\<^verbatim>\<open>fetchStakePosition\<close>\<close>

text \<open>What lines 215 to 241 fetch: the policy's asset, the primary address, the savers
  and the pools.\<close>

record PositionData =
  pd_pluginId :: string
  pd_currencyCode :: string
  pd_asset :: string
  pd_primaryAddress :: string
  pd_savers :: "Saver list"
  pd_pools :: "Pool list"

text \<open>
  A response that is not \<^verbatim>\<open>ok\<close> throws with its text; otherwise its JSON goes
  through the cleaner.
\<close>

definition readResponse ::
  "string \<Rightarrow> (Json \<Rightarrow> error + 'a) \<Rightarrow> Response \<Rightarrow> error + 'a" where
  "readResponse what cleaner response =
     (if \<not> ok response then
        (case text_of response of
           Inl e \<Rightarrow> Inl e
         | Inr responseText \<Rightarrow> Inl (Error (''Thorchain could not fetch '' @ what @ '': '' @ responseText)))
      else
        (case json response of
           Inl e \<Rightarrow> Inl e
         | Inr j \<Rightarrow> cleaner j))"

text \<open>
  The two requests of \<^verbatim>\<open>Promise.all\<close> are both sent before either is awaited. When both
  fail, the model reports the savers' error.
\<close>

definition fetchStakePosition_data ::
  "Env \<Rightarrow> StakePositionRequest \<Rightarrow> ModuleState \<Rightarrow> (error + PositionData) \<times> ModuleState" where
  "fetchStakePosition_data env request s =
     (case updateInboundAddresses env s of
        (Inl e, s1) \<Rightarrow> (Inl e, s1)
      | (Inr u, s1) \<Rightarrow>
          (case getPolicyFromId s1 (pr_stakePolicyId request) of
             Inl e \<Rightarrow> (Inl e, s1)
           | Inr policy \<Rightarrow>
               (case stakeAssets policy of
                  [] \<Rightarrow> (Inl (TypeError ''Cannot destructure property pluginId of undefined''), s1)
                | a # rest \<Rightarrow>
                    let pluginId = a_pluginId a;
                        currencyCode = a_currencyCode a;
                        mainnetCode = MAINNET_CODE_TRANSCRIPTION pluginId;
                        asset = template mainnetCode @ ''.'' @ currencyCode
                    in (case getPrimaryAddress (pr_wallet request) currencyCode s1 of
                          (Inl e, s2) \<Rightarrow> (Inl e, s2)
                        | (Inr (primaryAddress, addressBalance), s2) \<Rightarrow>
                            let s3 = emit (EvFetchWaterfall (midgardServers s2) V2Pools)
                                       (emit (EvFetchWaterfall (thornodeServers s2) (PoolSavers asset)) s2)
                            in (case fetchWaterfall env (thornodeServers s2) (PoolSavers asset) of
                                  Inl e \<Rightarrow> (Inl e, s3)
                                | Inr saversResponse \<Rightarrow>
                                    (case fetchWaterfall env (midgardServers s2) V2Pools of
                                       Inl e \<Rightarrow> (Inl e, s3)
                                     | Inr poolsResponse \<Rightarrow>
                                         (case readResponse ''/pool/savers'' asSavers saversResponse of
                                            Inl e \<Rightarrow> (Inl e, s3)
                                          | Inr savers \<Rightarrow>
                                              (case readResponse ''/v2/pools'' asPools poolsResponse of
                                                 Inl e \<Rightarrow> (Inl e, s3)
                                               | Inr pools \<Rightarrow>
                                                   (Inr \<lparr>pd_pluginId = pluginId,
                                                         pd_currencyCode = currencyCode,
                                                         pd_asset = asset,
                                                         pd_primaryAddress = primaryAddress,
                                                         pd_savers = savers,
                                                         pd_pools = pools\<rparr>, s3)))))))))"

text \<open>Lines 243 and 244: the saver of the primary address and the pool of the asset.\<close>

definition findSaver :: "PositionData \<Rightarrow> Saver option" where
  "findSaver d =
     find (\<lambda>sv. toLowerCase (asset_address sv) = toLowerCase (pd_primaryAddress d)) (pd_savers d)"

definition findPool :: "PositionData \<Rightarrow> Pool option" where
  "findPool d = find (\<lambda>pl. pl_asset pl = pd_asset d) (pd_pools d)"

text \<open>Line 251: the redeemable value of a saver's units in its pool.\<close>

definition redeemableValue :: "Saver \<Rightarrow> Pool \<Rightarrow> error + amount" where
  "redeemableValue sv pl =
     div_bs (mul_bs (units sv) (saversDepth pl)) (saversUnits pl) DIVIDE_PRECISION"

text \<open>
  Lines 245 to 268: the staked and the earned amount, both \<^verbatim>\<open>'0'\<close> unless a saver and a
  pool were found.
\<close>

definition positionAmounts ::
  "EdgeCurrencyWallet \<Rightarrow> string \<Rightarrow> Saver option \<Rightarrow> Pool option \<Rightarrow> error + amount \<times> amount" where
  "positionAmounts wallet currencyCode saver pool =
     (case (saver, pool) of
        (Some sv, Some pl) \<Rightarrow>
          (case redeemableValue sv pl of
             Inl e \<Rightarrow> Inl e
           | Inr redeemable \<Rightarrow>
               (case div_bs (asset_deposit_value sv) THOR_LIMIT_UNITS DIVIDE_PRECISION of
                  Inl e \<Rightarrow> Inl e
                | Inr stakedExchange \<Rightarrow>
                    (case div_bs (sub_bs redeemable (asset_deposit_value sv))
                            THOR_LIMIT_UNITS DIVIDE_PRECISION of
                       Inl e \<Rightarrow> Inl e
                     | Inr earnedExchange \<Rightarrow>
                         (case denominationToNative wallet stakedExchange currencyCode of
                            Inl e \<Rightarrow> Inl e
                          | Inr stakedNative \<Rightarrow>
                              (case denominationToNative wallet earnedExchange currencyCode of
                                 Inl e \<Rightarrow> Inl e
                               | Inr earnedNative \<Rightarrow>
                                   Inr (toFixed stakedNative 0 0,
                                        max_bs (toFixed earnedNative 0 0) 0))))))
      | _ \<Rightarrow> Inr (0, 0))"

definition fetchStakePosition ::
  "Env \<Rightarrow> StakePositionRequest \<Rightarrow> ModuleState \<Rightarrow> (error + StakePosition) \<times> ModuleState" where
  "fetchStakePosition env request s =
     (case fetchStakePosition_data env request s of
        (Inl e, s1) \<Rightarrow> (Inl e, s1)
      | (Inr d, s1) \<Rightarrow>
          (case positionAmounts (pr_wallet request) (pd_currencyCode d) (findSaver d) (findPool d) of
             Inl e \<Rightarrow> (Inl e, s1)
           | Inr (stakedAmount, earnedAmount) \<Rightarrow>
               (Inr \<lparr>allocations =
                       [\<lparr>p_pluginId = pd_pluginId d, p_currencyCode = pd_currencyCode d,
                         p_allocationType = Staked, p_nativeAmount = stakedAmount\<rparr>,
                        \<lparr>p_pluginId = pd_pluginId d, p_currencyCode = pd_currencyCode d,
                         p_allocationType = Earned, p_nativeAmount = earnedAmount\<rparr>],
                     canStake = True, canUnstake = True, canClaim = True\<rparr>, s1)))"

subsection \<open>The \<^verbatim>\<open>approve\<close> closure and the plugin's construction\<close>

text \<open>\<^verbatim>\<open>makeSpend\<close>, \<^verbatim>\<open>signTx\<close>, \<^verbatim>\<open>broadcastTx\<close>, \<^verbatim>\<open>saveTx\<close>, in this order.\<close>

definition sendTx :: "EdgeCurrencyWallet \<Rightarrow> SpendInfo \<Rightarrow> ModuleState \<Rightarrow> (error + unit) \<times> ModuleState" where
  "sendTx wallet spend s =
     (let s1 = emit (EvMakeSpend spend) s in
      case makeSpend wallet spend of
        Inl e \<Rightarrow> (Inl e, s1)
      | Inr tx \<Rightarrow>
          let s2 = emit (EvSignTx tx) s1 in
          (case signTx wallet tx of
             Inl e \<Rightarrow> (Inl e, s2)
           | Inr signedTx \<Rightarrow>
               let s3 = emit (EvBroadcastTx signedTx) s2 in
               (case broadcastTx wallet signedTx of
                  Inl e \<Rightarrow> (Inl e, s3)
                | Inr broadcastedTx \<Rightarrow>
                    let s4 = emit (EvSaveTx broadcastedTx) s3 in
                    (case saveTx wallet broadcastedTx of
                       Inl e \<Rightarrow> (Inl e, s4)
                     | Inr u \<Rightarrow> (Inr (), s4)))))"

fun runApprove :: "Approve \<Rightarrow> ModuleState \<Rightarrow> (error + unit) \<times> ModuleState" where
  "runApprove ApproveNothing s = (Inr (), s)"
| "runApprove (ApproveStake wallet needsFundingPrimary fee primaryAddress poolAddress nativeAmount) s =
     (case (if needsFundingPrimary
            then sendTx wallet
                   (fundingSpend primaryAddress (add_bs fee nativeAmount) (Some primaryAddress)
                      (Some (''Thorchain Savers'', ''Expense:Network Fee''))) s
            else (Inr (), s)) of
        (Inl e, s1) \<Rightarrow> (Inl e, s1)
      | (Inr u, s1) \<Rightarrow>
          sendTx wallet
            (poolSpend poolAddress nativeAmount primaryAddress
               (Some (''Thorchain Savers'', ''Transfer:Staking''))) s1)"

text \<open>
  \<^verbatim>\<open>makeTcSaversPlugin\<close> fetches the yearly yields once and assigns them to the policies;
  every failure on the way is logged and the policies stay as they are.
\<close>

definition makeTcSaversPlugin :: "Env \<Rightarrow> ModuleState \<Rightarrow> ModuleState" where
  "makeTcSaversPlugin env s =
     (let s1 = emit (EvFetchInfo ''v1/apyValues'') s;
          fetchFailed = emit (EvConsole ''Fetch APY failed'') s1;
          parseFailed = emit (EvConsole ''Parsing Fetch APY failed'') s1
      in case fetchInfo env ''v1/apyValues'' of
           Inl e \<Rightarrow> fetchFailed
         | Inr res \<Rightarrow>
             if \<not> ok res then fetchFailed
             else
               (case json res of
                  Inl e \<Rightarrow> parseFailed
                | Inr fetchResponseJson \<Rightarrow>
                    (case asInfoServerResponse fetchResponseJson of
                       Inl e \<Rightarrow> parseFailed
                     | Inr infoServerResponse \<Rightarrow>
                         s1\<lparr>policies := updatePolicyApys infoServerResponse (policies s1)\<rparr>)))"

section \<open>The effect checker\<close>

text \<open>
  Modelled from the spec: the account and wallet capability the effect checker consumes
  (section 6) is not among the sources. The record holds what a check observes: the
  balance of a wallet, address and token, the rate of a currency pair, the confirmations
  of a transaction of a wallet, whether an event id has been signaled, and the advisory
  delay of each effect, for which the spec gives no number. The last field is the answer
  of the checker for an effect that sets neither bound, on which the spec has two
  answers (see \<open>withinBounds\<close>); it is a parameter of the model.
\<close>

record CheckContext =
  balanceOf :: "string \<Rightarrow> string \<Rightarrow> string option \<Rightarrow> error + amount"
  rateOf :: "string \<Rightarrow> error + rat"
  confirmationsOf :: "string \<Rightarrow> string \<Rightarrow> error + int"
  signaled :: "string \<Rightarrow> bool"
  delayFor :: "ActionEffect \<Rightarrow> int"
  noBoundEffective :: bool

text \<open>
  Modelled from the spec: the comparison of \<^verbatim>\<open>checkActionEffect\<close> for a balance or a
  rate is not among the sources. Sections 4.2 and 8 agree wherever a bound is set:
  effective if the value is above the one bound and/or below the other, whichever bounds
  are present; an absent bound does not constrain its side; with both present, both must
  hold. Where neither bound is set they differ: section 4.2 says that at least one bound
  must be set for the condition to ever become true, the formula of section 8 makes the
  condition true. No source decides between the two, so the answer there is the first
  argument, which the checker takes from its context.
\<close>

definition withinBounds :: "bool \<Rightarrow> rat option \<Rightarrow> rat option \<Rightarrow> rat \<Rightarrow> bool" where
  "withinBounds noBound aboveBound belowBound v =
     (case (aboveBound, belowBound) of
        (None, None) \<Rightarrow> noBound
      | (Some a, None) \<Rightarrow> a < v
      | (None, Some b) \<Rightarrow> v < b
      | (Some a, Some b) \<Rightarrow> a < v \<and> v < b)"

text \<open>
  Modelled from the spec: the helpers of \<^verbatim>\<open>checkActionEffect\<close> for a \<^verbatim>\<open>par\<close> effect are
  not among the sources. Section 4.2: the children that are not \<^verbatim>\<open>done\<close> are checked, a
  failing check fails the whole check, the delay is the least delay among the checked
  children. The spec gives no delay when no child is checked; the model takes 0, the
  delay of \<^verbatim>\<open>done\<close>.
\<close>

definition isDone :: "ActionEffect \<Rightarrow> bool" where
  "isDone e = (case e of DoneEffect err cancelled \<Rightarrow> True | _ \<Rightarrow> False)"

text \<open>
  Modelled from the spec: the join of the children's checks is not among the sources.
  Section 5: the checks of a \<^verbatim>\<open>par\<close> are started together and all awaited; the model
  reports the error of the first child that fails.
\<close>

fun firstError :: "(error + 'a) list \<Rightarrow> error + 'a list" where
  "firstError [] = Inr []"
| "firstError (Inl e # rs) = Inl e"
| "firstError (Inr r # rs) = (case firstError rs of Inl e \<Rightarrow> Inl e | Inr xs \<Rightarrow> Inr (r # xs))"

text \<open>
  Modelled from the spec: the aggregation of delays is not among the sources.
  Section 4.2: the least suggested delay among the children checked.
\<close>

definition minDelay :: "EffectCheckResult list \<Rightarrow> int" where
  "minDelay rs = (case rs of [] \<Rightarrow> 0 | r # rest \<Rightarrow> fold (\<lambda>x m. min (delay x) m) rest (delay r))"

text \<open>
  Modelled from the spec: how a check result replaces an effect is not among the
  sources. Section 4.3, rule 4: an \<^verbatim>\<open>updatedEffect\<close>, when one is returned, replaces the
  stored effect.
\<close>

definition updatedChild :: "ActionEffect \<Rightarrow> EffectCheckResult \<Rightarrow> ActionEffect" where
  "updatedChild child r = (case updatedEffect r of None \<Rightarrow> child | Some u \<Rightarrow> u)"

text \<open>
  Modelled from the spec: \<^verbatim>\<open>checkActionEffect\<close> is not among the sources, only the types
  of its argument and of its result are. Section 4.2, variant by variant:
  \<^item> \<^verbatim>\<open>address-balance\<close>: the balance of the wallet, address and token is fetched and
    compared with the bounds (\<open>withinBounds\<close>);
  \<^item> \<^verbatim>\<open>price-level\<close>: the same with the rate of the currency pair;
  \<^item> \<^verbatim>\<open>tx-confs\<close>: effective once the confirmations reach the target;
  \<^item> \<^verbatim>\<open>push-event\<close>: effective once the event id has been signaled, the nested effect
    then follows;
  \<^item> \<^verbatim>\<open>done\<close>: always effective, delay 0;
  \<^item> \<^verbatim>\<open>seq\<close>: only the child at the current index is checked, and it alone decides;
  \<^item> \<^verbatim>\<open>par\<close>: every child that is not \<^verbatim>\<open>done\<close> is checked, all must be effective.
  A failing observation fails the check. The spec does not say what a composite does
  with a child that has no effect yet, with an index outside the children, or with the
  updated effect of a child: the model fails the check in the first two cases and puts
  an updated effect back in the child's place.
\<close>

function checkActionEffect :: "CheckContext \<Rightarrow> ActionEffect \<Rightarrow> error + EffectCheckResult" where
  "checkActionEffect ctx (AddressBalanceEffect address aboveAmount belowAmount walletId tokenId) =
     (case balanceOf ctx walletId address tokenId of
        Inl e \<Rightarrow> Inl e
      | Inr balance \<Rightarrow>
          Inr \<lparr>delay = delayFor ctx (AddressBalanceEffect address aboveAmount belowAmount walletId tokenId),
               isEffective = withinBounds (noBoundEffective ctx) aboveAmount belowAmount balance,
               updatedEffect = None\<rparr>)"
| "checkActionEffect ctx (PriceLevelEffect currencyPair aboveRate belowRate) =
     (case rateOf ctx currencyPair of
        Inl e \<Rightarrow> Inl e
      | Inr rate \<Rightarrow>
          Inr \<lparr>delay = delayFor ctx (PriceLevelEffect currencyPair aboveRate belowRate),
               isEffective = withinBounds (noBoundEffective ctx) aboveRate belowRate rate,
               updatedEffect = None\<rparr>)"
| "checkActionEffect ctx (TxConfsEffect txId walletId confirmations) =
     (case confirmationsOf ctx txId walletId of
        Inl e \<Rightarrow> Inl e
      | Inr count \<Rightarrow>
          Inr \<lparr>delay = delayFor ctx (TxConfsEffect txId walletId confirmations),
               isEffective = (confirmations \<le> count),
               updatedEffect = None\<rparr>)"
| "checkActionEffect ctx (PushEventEffect eventId nested) =
     Inr \<lparr>delay = delayFor ctx (PushEventEffect eventId nested),
          isEffective = signaled ctx eventId,
          updatedEffect = (if signaled ctx eventId then nested else None)\<rparr>"
| "checkActionEffect ctx (DoneEffect err cancelled) =
     Inr \<lparr>delay = 0, isEffective = True, updatedEffect = None\<rparr>"
| "checkActionEffect ctx (SeqEffect opIndex childEffects) =
     (if 0 \<le> opIndex \<and> nat opIndex < length childEffects then
        (case childEffects ! nat opIndex of
           None \<Rightarrow> Inl (Error ''seq: the active child has no effect'')
         | Some child \<Rightarrow>
             (case checkActionEffect ctx child of
                Inl e \<Rightarrow> Inl e
              | Inr r \<Rightarrow>
                  Inr \<lparr>delay = delay r, isEffective = isEffective r,
                       updatedEffect =
                         map_option (\<lambda>u. SeqEffect opIndex (childEffects[nat opIndex := Some u]))
                           (updatedEffect r)\<rparr>))
      else Inl (Error ''seq: no active child''))"
| "checkActionEffect ctx (ParEffect childEffects) =
     (case firstError
             (map (\<lambda>c. case c of
                          None \<Rightarrow> Inl (Error ''par: a child has no effect'')
                        | Some child \<Rightarrow>
                            if isDone child then Inr (child, None)
                            else (case checkActionEffect ctx child of
                                    Inl e \<Rightarrow> Inl e
                                  | Inr r \<Rightarrow> Inr (child, Some r)))
                childEffects) of
        Inl e \<Rightarrow> Inl e
      | Inr checked \<Rightarrow>
          let active = List.map_filter snd checked in
          Inr \<lparr>delay = minDelay active,
               isEffective = list_all isEffective active,
               updatedEffect =
                 (if list_ex (\<lambda>r. updatedEffect r \<noteq> None) active
                  then Some (ParEffect
                         (map (\<lambda>(child, r). case r of
                                               None \<Rightarrow> Some child
                                             | Some r' \<Rightarrow> Some (updatedChild child r')) checked))
                  else None)\<rparr>)"
  by pat_completeness auto
termination
proof (relation "measure (\<lambda>(ctx, e). size e)")
  show "wf (measure (\<lambda>(ctx, e). size e))" by simp
next
  fix ctx :: CheckContext and opIndex :: int
    and childEffects :: "ActionEffect option list" and child :: ActionEffect
  assume "0 \<le> opIndex \<and> nat opIndex < length childEffects"
    and "childEffects ! nat opIndex = Some child"
  then have "Some child \<in> set childEffects"
    by (metis nth_mem)
  then have "size_option size (Some child) \<le> size_list (size_option size) childEffects"
    by (simp add: size_list_estimation')
  then show "((ctx, child), (ctx, SeqEffect opIndex childEffects)) \<in> measure (\<lambda>(ctx, e). size e)"
    by simp
next
  fix ctx :: CheckContext and childEffects :: "ActionEffect option list"
    and c :: "ActionEffect option" and child :: ActionEffect
  assume "c \<in> set childEffects" and "c = Some child"
  then have "size_option size (Some child) \<le> size_list (size_option size) childEffects"
    by (simp add: size_list_estimation')
  then show "((ctx, child), (ctx, ParEffect childEffects)) \<in> measure (\<lambda>(ctx, e). size e)"
    by simp
qed

text \<open>
  Modelled from the spec: the scheduler's poll is not among the sources. Section 4.3,
  rule 4: on each poll of a recorded effect the checker is called, \<^verbatim>\<open>lastExecutionTime\<close>
  becomes the time of the poll and \<^verbatim>\<open>nextExecutionTime\<close> that time plus the delay; when
  the effect is effective, \<^verbatim>\<open>effective\<close> is set and an updated effect, when one was
  returned, replaces the stored one. A failing check is surfaced to the caller and the
  state stays as it was. A state with no effect is not polled.
\<close>

definition pollEffect :: "CheckContext \<Rightarrow> int \<Rightarrow> ActionProgramState \<Rightarrow> error + ActionProgramState" where
  "pollEffect ctx time st =
     (case effect st of
        None \<Rightarrow> Inr st
      | Some e \<Rightarrow>
          (case checkActionEffect ctx e of
             Inl err \<Rightarrow> Inl err
           | Inr r \<Rightarrow>
               Inr (st\<lparr>lastExecutionTime := time,
                       nextExecutionTime := time + delay r,
                       effective := (if isEffective r then True else effective st),
                       effect := (if isEffective r then Some (updatedChild e r) else Some e)\<rparr>)))"

section \<open>Sets of errors and example inputs\<close>

text \<open>The four errors \<^verbatim>\<open>fetchChangeQuote\<close> and \<^verbatim>\<open>getPolicyFromId\<close> throw on a request
  that does not fit a policy.\<close>

definition validationErrors :: "string \<Rightarrow> error set" where
  "validationErrors policyId =
     {Error (''Cannot find policy '' @ policyId),
      Error ''Currency code mismatch between request and policy'',
      Error ''pluginId mismatch between request and policy'',
      Error ''Only mainnet coins supported for staking''}"

text \<open>
  A bitcoin wallet with a given balance, whose primary (segwit) address holds a given
  balance, whose unit is 10^8 native units and whose spends cost a fee of 3000.
\<close>

definition exWallet :: "amount \<Rightarrow> amount \<Rightarrow> EdgeCurrencyWallet" where
  "exWallet walletBalance addressBalance =
     \<lparr>w_pluginId = ''bitcoin'', w_currencyCode = ''BTC'',
      balances = [''BTC'' \<mapsto> walletBalance],
      nativeToDenomination = (\<lambda>x c. Inr (x / 100000000)),
      denominationToNative = (\<lambda>x c. Inr (x * 100000000)),
      getReceiveAddress =
        (\<lambda>c. Inr \<lparr>publicAddress = ''1Legacy'', nativeBalance = Some 0,
                     segwitAddress = Some ''BC1QPRIMARY'',
                     segwitNativeBalance = Some addressBalance\<rparr>),
      makeSpend = (\<lambda>spend. Inr \<lparr>networkFee = 3000, txid = ''estimate''\<rparr>),
      signTx = Inr, broadcastTx = Inr, saveTx = (\<lambda>tx. Inr ())\<rparr>"

definition exRequest :: "string \<Rightarrow> string \<Rightarrow> amount \<Rightarrow> EdgeCurrencyWallet \<Rightarrow> ChangeQuoteRequest" where
  "exRequest policyId currencyCode nativeAmount wallet =
     \<lparr>rq_action = Stake, rq_stakePolicyId = policyId, rq_currencyCode = currencyCode,
      rq_nativeAmount = nativeAmount, rq_wallet = wallet\<rparr>"

definition exPositionRequest :: StakePositionRequest where
  "exPositionRequest =
     \<lparr>pr_stakePolicyId = ''tcsavers/bitcoin:btc=bitcoin:btc'', pr_wallet = exWallet 0 0\<rparr>"

definition exSaver :: "string \<Rightarrow> amount \<Rightarrow> amount \<Rightarrow> Saver" where
  "exSaver address u deposit =
     \<lparr>s_asset = ''BTC.BTC'', asset_address = address, last_add_height = 1,
      units = u, asset_deposit_value = deposit\<rparr>"

definition exPool :: "string \<Rightarrow> amount \<Rightarrow> amount \<Rightarrow> Pool" where
  "exPool asset depth u =
     \<lparr>pl_asset = asset, status = ''available'', assetPrice = 1, assetPriceUSD = 1,
      assetDepth = 1, saversDepth = depth, saversUnits = u, runeDepth = 1\<rparr>"

definition exResponse :: "Json \<Rightarrow> Response" where
  "exResponse j = \<lparr>ok = True, text_of = Inr [], json = Inr j\<rparr>"

text \<open>
  A network where the info server is unreachable, Thorchain answers with the given
  savers and pools and no inbound address, and a deposit quote pays out the amount
  less 100.
\<close>

definition exEnv :: "Saver list \<Rightarrow> Pool list \<Rightarrow> Env" where
  "exEnv savers pools =
     \<lparr>now = 1000000,
      fetchInfo = (\<lambda>p. Inl (Error ''offline'')),
      fetchWaterfall =
        (\<lambda>servers p. case p of
             PoolSavers asset \<Rightarrow> Inr (exResponse (JSavers savers))
           | V2Pools \<Rightarrow> Inr (exResponse (JPools pools))
           | V2InboundAddresses \<Rightarrow> Inr (exResponse (JInboundAddresses []))
           | QuoteSaverDeposit asset address amt \<Rightarrow> Inl (Error ''not found'')),
      cleanMultiFetch =
        (\<lambda>servers p. case p of
             QuoteSaverDeposit asset address amt \<Rightarrow>
               Inr \<lparr>expected_amount_out = amt - 100, inbound_address = ''bc1qpool''\<rparr>
           | _ \<Rightarrow> Inl (Error ''not found''))\<rparr>"

text \<open>
  An account whose every balance is the given one and where nothing else happens; an
  effect with no bound is answered as the formula of section 8 has it.
\<close>

definition exContext :: "amount \<Rightarrow> CheckContext" where
  "exContext balance =
     \<lparr>balanceOf = (\<lambda>walletId address tokenId. Inr balance),
      rateOf = (\<lambda>currencyPair. Inl (Error ''no rate'')),
      confirmationsOf = (\<lambda>txId walletId. Inr 0),
      signaled = (\<lambda>eventId. False),
      delayFor = (\<lambda>e. 15000),
      noBoundEffective = True\<rparr>"

section \<open>Properties of the action queue types\<close>

lemma type_ActionOp_tags:
  "type_ActionOp op \<in> {''seq'', ''par'', ''broadcast-tx'', ''wyre-buy'', ''wyre-sell'',
     ''loan-borrow'', ''loan-deposit'', ''loan-repay'', ''loan-withdraw'', ''swap''}"
  by (cases op) simp_all

lemma isActionOpType_iff:
  "isActionOpType t \<longleftrightarrow> t \<in> {''seq'', ''par'', ''wyre-buy'', ''wyre-sell'',
     ''loan-borrow'', ''loan-deposit'', ''loan-repay'', ''loan-withdraw'', ''swap'',
     ''toast'', ''delay''}"
  by (auto simp: isActionOpType_def allActionOpTypes_def)

text \<open>
  Every operation but a \<^verbatim>\<open>broadcast-tx\<close> carries a tag of \<^verbatim>\<open>ActionOpTypes\<close>; the
  members \<^verbatim>\<open>toast\<close> and \<^verbatim>\<open>delay\<close> tag no operation.
\<close>

lemma type_ActionOp_in_ActionOpTypes:
  "isActionOpType (type_ActionOp op) \<longleftrightarrow> (\<forall>p r. op \<noteq> BroadcastTxActionOp p r)"
  by (cases op) (simp_all add: isActionOpType_iff)

lemma no_ActionOp_toast_delay:
  "type_ActionOp op \<noteq> ''toast'' \<and> type_ActionOp op \<noteq> ''delay''"
  by (cases op) simp_all

text \<open>
  C5. \<^verbatim>\<open>ActionOp\<close> is the union of \<^verbatim>\<open>seq\<close>, \<^verbatim>\<open>par\<close> and the eight leaf operations, and
  the tag of every operation should be a member of \<^verbatim>\<open>ActionOpTypes\<close>. The union is as
  claimed (\<open>type_ActionOp_tags\<close>), but the tag of a \<^verbatim>\<open>broadcast-tx\<close> operation is not
  a member of \<^verbatim>\<open>ActionOpTypes\<close>.
\<close>

theorem broadcast_tx_not_in_ActionOpTypes:
  "type_ActionOp (BroadcastTxActionOp ''bitcoin'' []) = ''broadcast-tx''
   \<and> \<not> isActionOpType (type_ActionOp (BroadcastTxActionOp ''bitcoin'' []))"
proof -
  have "type_ActionOp (BroadcastTxActionOp ''bitcoin'' []) = ''broadcast-tx''"
    by simp
  moreover have "\<not> isActionOpType ''broadcast-tx''"
    by (simp add: isActionOpType_iff)
  ultimately show ?thesis by simp
qed

section \<open>Properties of the effect checker\<close>

text \<open>
  The check of an \<^verbatim>\<open>address-balance\<close> effect whose balance can be fetched succeeds. With
  a bound set, \<^verbatim>\<open>isEffective\<close> is true if and only if the balance is above
  \<^verbatim>\<open>aboveAmount\<close> when that bound is set and below \<^verbatim>\<open>belowAmount\<close> when that bound is set;
  with no bound set it is the answer of the context.
\<close>

lemma checkActionEffect_address_balance:
  assumes "balanceOf ctx walletId address tokenId = Inr balance"
  shows "\<exists>r. checkActionEffect ctx
                (AddressBalanceEffect address aboveAmount belowAmount walletId tokenId) = Inr r
           \<and> (isEffective r \<longleftrightarrow>
                 (if aboveAmount = None \<and> belowAmount = None then noBoundEffective ctx
                  else (case aboveAmount of None \<Rightarrow> True | Some a \<Rightarrow> a < balance)
                     \<and> (case belowAmount of None \<Rightarrow> True | Some b \<Rightarrow> balance < b)))"
proof -
  let ?e = "AddressBalanceEffect address aboveAmount belowAmount walletId tokenId"
  let ?r = "\<lparr>delay = delayFor ctx ?e,
             isEffective = withinBounds (noBoundEffective ctx) aboveAmount belowAmount balance,
             updatedEffect = None\<rparr>"
  have run: "checkActionEffect ctx ?e = Inr ?r"
    using assms by simp
  have "withinBounds (noBoundEffective ctx) aboveAmount belowAmount balance \<longleftrightarrow>
          (if aboveAmount = None \<and> belowAmount = None then noBoundEffective ctx
           else (case aboveAmount of None \<Rightarrow> True | Some a \<Rightarrow> a < balance)
              \<and> (case belowAmount of None \<Rightarrow> True | Some b \<Rightarrow> balance < b))"
    by (simp add: withinBounds_def split: option.splits)
  with run show ?thesis by simp
qed

text \<open>
  The scenario of the spec: with \<^verbatim>\<open>aboveAmount\<close> 1000 and no other bound, a balance of
  999 is not effective and a balance of 1001 is.
\<close>

lemma checkActionEffect_address_balance_scenario:
  "checkActionEffect (exContext 999)
     (AddressBalanceEffect ''bc1q'' (Some 1000) None ''wallet'' None)
     = Inr \<lparr>delay = 15000, isEffective = False, updatedEffect = None\<rparr>
   \<and> checkActionEffect (exContext 1001)
     (AddressBalanceEffect ''bc1q'' (Some 1000) None ''wallet'' None)
     = Inr \<lparr>delay = 15000, isEffective = True, updatedEffect = None\<rparr>"
  by (simp add: exContext_def withinBounds_def)

text \<open>
  C3. Checking a \<^verbatim>\<open>done\<close> effect, whatever its error and cancellation fields, returns
  \<^verbatim>\<open>isEffective\<close> true, delay 0 and no updated effect; the effect stays as it is, a poll
  of a state holding it keeps it, and checking it again gives the same result.
\<close>

theorem checkActionEffect_done:
  "checkActionEffect ctx (DoneEffect err cancelled)
     = Inr \<lparr>delay = 0, isEffective = True, updatedEffect = None\<rparr>
   \<and> updatedChild (DoneEffect err cancelled)
         \<lparr>delay = 0, isEffective = True, updatedEffect = None\<rparr> = DoneEffect err cancelled
   \<and> pollEffect ctx time (st\<lparr>effect := Some (DoneEffect err cancelled)\<rparr>)
       = Inr (st\<lparr>effect := Some (DoneEffect err cancelled), effective := True,
                 lastExecutionTime := time, nextExecutionTime := time\<rparr>)
   \<and> (case pollEffect ctx time (st\<lparr>effect := Some (DoneEffect err cancelled)\<rparr>) of
         Inl e \<Rightarrow> False
       | Inr st' \<Rightarrow>
           (case effect st' of
              None \<Rightarrow> False
            | Some e' \<Rightarrow> checkActionEffect ctx e' = checkActionEffect ctx (DoneEffect err cancelled)))"
proof -
  let ?d = "DoneEffect err cancelled"
  let ?r = "\<lparr>delay = 0, isEffective = True, updatedEffect = None\<rparr>"
  have check: "checkActionEffect ctx ?d = Inr ?r"
    by simp
  have same: "updatedChild ?d ?r = ?d"
    by (simp add: updatedChild_def)
  have poll: "pollEffect ctx time (st\<lparr>effect := Some ?d\<rparr>)
       = Inr (st\<lparr>effect := Some ?d, effective := True,
                 lastExecutionTime := time, nextExecutionTime := time\<rparr>)"
    by (simp add: pollEffect_def same)
  from check same poll show ?thesis by simp
qed

theorem checkActionEffect_done_witness:
  "checkActionEffect (exContext 0) (DoneEffect (Some (InsufficientFundsError ''BTC'')) None)
     = Inr \<lparr>delay = 0, isEffective = True, updatedEffect = None\<rparr>
   \<and> checkActionEffect (exContext 0) (DoneEffect None (Some True))
     = Inr \<lparr>delay = 0, isEffective = True, updatedEffect = None\<rparr>"
  using checkActionEffect_done [of "exContext 0" "Some (InsufficientFundsError ''BTC'')" None]
    checkActionEffect_done [of "exContext 0" None "Some True"]
  by simp

section \<open>Properties of \<^verbatim>\<open>fetchChangeQuote\<close> and \<^verbatim>\<open>stakeRequest\<close>\<close>

lemma getPolicyFromId_None:
  "\<forall>p\<in>set (policies s). stakePolicyId p \<noteq> policyId \<Longrightarrow>
   getPolicyFromId s policyId = Inl (Error (''Cannot find policy '' @ policyId))"
  by (auto simp: getPolicyFromId_def find_None_iff split: option.splits)

text \<open>
  C6. \<^verbatim>\<open>fetchChangeQuote\<close> fails with one of the four validation errors, and the module's
  variables and the record of outside calls are as before (no fetch, no quote, no spend),
  when no policy has the request's id, or when the policy's first stake asset differs
  from the request in currency code, from the wallet in plugin id, or the request's
  currency code is not the wallet's own.
\<close>

theorem fetchChangeQuote_validation:
  assumes "(\<forall>p\<in>set (policies s). stakePolicyId p \<noteq> rq_stakePolicyId request)
     \<or> (\<exists>policy a rest.
          getPolicyFromId s (rq_stakePolicyId request) = Inr policy
          \<and> stakeAssets policy = a # rest
          \<and> (rq_currencyCode request \<noteq> a_currencyCode a
             \<or> a_pluginId a \<noteq> w_pluginId (rq_wallet request)
             \<or> rq_currencyCode request \<noteq> w_currencyCode (rq_wallet request)))"
  shows "\<exists>err\<in>validationErrors (rq_stakePolicyId request).
           fetchChangeQuote env request s = (Inl err, s)"
  using assms
proof (elim disjE exE conjE)
  assume "\<forall>p\<in>set (policies s). stakePolicyId p \<noteq> rq_stakePolicyId request"
  then show ?thesis
    by (simp add: getPolicyFromId_None fetchChangeQuote_def validationErrors_def)
next
  fix policy a rest
  assume "getPolicyFromId s (rq_stakePolicyId request) = Inr policy"
    and "stakeAssets policy = a # rest"
    and "rq_currencyCode request \<noteq> a_currencyCode a"
  then show ?thesis
    by (simp add: fetchChangeQuote_def Let_def validationErrors_def)
next
  fix policy a rest
  assume "getPolicyFromId s (rq_stakePolicyId request) = Inr policy"
    and "stakeAssets policy = a # rest"
    and "a_pluginId a \<noteq> w_pluginId (rq_wallet request)"
  then show ?thesis
    by (simp add: fetchChangeQuote_def Let_def validationErrors_def)
next
  fix policy a rest
  assume "getPolicyFromId s (rq_stakePolicyId request) = Inr policy"
    and "stakeAssets policy = a # rest"
    and "rq_currencyCode request \<noteq> w_currencyCode (rq_wallet request)"
  then show ?thesis
    by (simp add: fetchChangeQuote_def Let_def validationErrors_def)
qed

lemma getPolicyFromId_ltc:
  "getPolicyFromId initialState ''tcsavers/litecoin:ltc=litecoin:ltc''
     = Inr (mkPolicy ''tcsavers/litecoin:ltc=litecoin:ltc'' ''litecoin'' ''LTC'')"
  by (simp add: getPolicyFromId_def initialState_def policies0_def mkPolicy_def)

lemma getPolicyFromId_btc:
  "getPolicyFromId initialState ''tcsavers/bitcoin:btc=bitcoin:btc''
     = Inr (mkPolicy ''tcsavers/bitcoin:btc=bitcoin:btc'' ''bitcoin'' ''BTC'')"
  by (simp add: getPolicyFromId_def initialState_def policies0_def mkPolicy_def)

lemma exRequest_simps:
  "rq_action (exRequest policyId currencyCode nativeAmount wallet) = Stake"
  "rq_stakePolicyId (exRequest policyId currencyCode nativeAmount wallet) = policyId"
  "rq_currencyCode (exRequest policyId currencyCode nativeAmount wallet) = currencyCode"
  "rq_nativeAmount (exRequest policyId currencyCode nativeAmount wallet) = nativeAmount"
  "rq_wallet (exRequest policyId currencyCode nativeAmount wallet) = wallet"
  by (simp_all add: exRequest_def)

lemma exWallet_simps:
  "w_pluginId (exWallet b c) = ''bitcoin''"
  "w_currencyCode (exWallet b c) = ''BTC''"
  "balances (exWallet b c) ''BTC'' = Some b"
  "nativeToDenomination (exWallet b c) x cc = Inr (x / 100000000)"
  "denominationToNative (exWallet b c) x cc = Inr (x * 100000000)"
  "makeSpend (exWallet b c) spend = Inr \<lparr>networkFee = 3000, txid = ''estimate''\<rparr>"
  by (simp_all add: exWallet_def)

lemma exEnv_simps:
  "now (exEnv savers pools) = 1000000"
  "fetchInfo (exEnv savers pools) p = Inl (Error ''offline'')"
  "fetchWaterfall (exEnv savers pools) servers (PoolSavers asset) = Inr (exResponse (JSavers savers))"
  "fetchWaterfall (exEnv savers pools) servers V2Pools = Inr (exResponse (JPools pools))"
  "fetchWaterfall (exEnv savers pools) servers V2InboundAddresses
     = Inr (exResponse (JInboundAddresses []))"
  "cleanMultiFetch (exEnv savers pools) servers (QuoteSaverDeposit asset address amt)
     = Inr \<lparr>expected_amount_out = amt - 100, inbound_address = ''bc1qpool''\<rparr>"
  by (simp_all add: exEnv_def)

text \<open>
  One request for each of the four cases, against the module as loaded: an unknown
  policy, a bitcoin wallet asking for the litecoin policy in BTC and in LTC, and a
  wallet of a test network asking for the bitcoin policy.
\<close>

theorem fetchChangeQuote_validation_witness:
  "(\<exists>err\<in>validationErrors ''tcsavers/monero:xmr=monero:xmr''.
      fetchChangeQuote (exEnv [] [])
        (exRequest ''tcsavers/monero:xmr=monero:xmr'' ''BTC'' 50000 (exWallet 0 0)) initialState
      = (Inl err, initialState))
   \<and> (\<exists>err\<in>validationErrors ''tcsavers/litecoin:ltc=litecoin:ltc''.
      fetchChangeQuote (exEnv [] [])
        (exRequest ''tcsavers/litecoin:ltc=litecoin:ltc'' ''BTC'' 50000 (exWallet 0 0)) initialState
      = (Inl err, initialState))
   \<and> (\<exists>err\<in>validationErrors ''tcsavers/litecoin:ltc=litecoin:ltc''.
      fetchChangeQuote (exEnv [] [])
        (exRequest ''tcsavers/litecoin:ltc=litecoin:ltc'' ''LTC'' 50000 (exWallet 0 0)) initialState
      = (Inl err, initialState))
   \<and> (\<exists>err\<in>validationErrors ''tcsavers/bitcoin:btc=bitcoin:btc''.
      fetchChangeQuote (exEnv [] [])
        (exRequest ''tcsavers/bitcoin:btc=bitcoin:btc'' ''BTC'' 50000
           ((exWallet 0 0)\<lparr>w_currencyCode := ''TESTBTC''\<rparr>)) initialState
      = (Inl err, initialState))"
proof -
  let ?E = "exEnv [] []"
  let ?r1 = "exRequest ''tcsavers/monero:xmr=monero:xmr'' ''BTC'' 50000 (exWallet 0 0)"
  let ?r2 = "exRequest ''tcsavers/litecoin:ltc=litecoin:ltc'' ''BTC'' 50000 (exWallet 0 0)"
  let ?r3 = "exRequest ''tcsavers/litecoin:ltc=litecoin:ltc'' ''LTC'' 50000 (exWallet 0 0)"
  let ?r4 = "exRequest ''tcsavers/bitcoin:btc=bitcoin:btc'' ''BTC'' 50000
               ((exWallet 0 0)\<lparr>w_currencyCode := ''TESTBTC''\<rparr>)"
  let ?ltc = "mkPolicy ''tcsavers/litecoin:ltc=litecoin:ltc'' ''litecoin'' ''LTC''"
  let ?btc = "mkPolicy ''tcsavers/bitcoin:btc=bitcoin:btc'' ''bitcoin'' ''BTC''"
  have h1: "\<forall>p\<in>set (policies initialState). stakePolicyId p \<noteq> rq_stakePolicyId ?r1"
    by (simp add: initialState_def policies0_def mkPolicy_def exRequest_def)
  have h2: "getPolicyFromId initialState (rq_stakePolicyId ?r2) = Inr ?ltc
      \<and> stakeAssets ?ltc = [\<lparr>a_pluginId = ''litecoin'', a_currencyCode = ''LTC''\<rparr>]
      \<and> rq_currencyCode ?r2 \<noteq> a_currencyCode \<lparr>a_pluginId = ''litecoin'', a_currencyCode = ''LTC''\<rparr>"
    using getPolicyFromId_ltc by (simp add: exRequest_def mkPolicy_def)
  have h3: "getPolicyFromId initialState (rq_stakePolicyId ?r3) = Inr ?ltc
      \<and> stakeAssets ?ltc = [\<lparr>a_pluginId = ''litecoin'', a_currencyCode = ''LTC''\<rparr>]
      \<and> a_pluginId \<lparr>a_pluginId = ''litecoin'', a_currencyCode = ''LTC''\<rparr>
          \<noteq> w_pluginId (rq_wallet ?r3)"
    using getPolicyFromId_ltc by (simp add: exRequest_def mkPolicy_def exWallet_def)
  have h4: "getPolicyFromId initialState (rq_stakePolicyId ?r4) = Inr ?btc
      \<and> stakeAssets ?btc = [\<lparr>a_pluginId = ''bitcoin'', a_currencyCode = ''BTC''\<rparr>]
      \<and> rq_currencyCode ?r4 \<noteq> w_currencyCode (rq_wallet ?r4)"
    using getPolicyFromId_btc by (simp add: exRequest_def mkPolicy_def exWallet_def)
  have c1: "\<exists>err\<in>validationErrors (rq_stakePolicyId ?r1).
              fetchChangeQuote ?E ?r1 initialState = (Inl err, initialState)"
    using h1 by (intro fetchChangeQuote_validation) blast
  have c2: "\<exists>err\<in>validationErrors (rq_stakePolicyId ?r2).
              fetchChangeQuote ?E ?r2 initialState = (Inl err, initialState)"
    using h2 by (intro fetchChangeQuote_validation) blast
  have c3: "\<exists>err\<in>validationErrors (rq_stakePolicyId ?r3).
              fetchChangeQuote ?E ?r3 initialState = (Inl err, initialState)"
    using h3 by (intro fetchChangeQuote_validation) blast
  have c4: "\<exists>err\<in>validationErrors (rq_stakePolicyId ?r4).
              fetchChangeQuote ?E ?r4 initialState = (Inl err, initialState)"
    using h4 by (intro fetchChangeQuote_validation) blast
  have ids: "rq_stakePolicyId ?r1 = ''tcsavers/monero:xmr=monero:xmr''"
    "rq_stakePolicyId ?r2 = ''tcsavers/litecoin:ltc=litecoin:ltc''"
    "rq_stakePolicyId ?r3 = ''tcsavers/litecoin:ltc=litecoin:ltc''"
    "rq_stakePolicyId ?r4 = ''tcsavers/bitcoin:btc=bitcoin:btc''"
    by (simp_all add: exRequest_def)
  from c1 c2 c3 c4 show ?thesis unfolding ids by blast
qed

text \<open>Which error each mismatch raises, in the order the source tests them.\<close>

lemma fetchChangeQuote_policy_found:
  assumes "getPolicyFromId s (rq_stakePolicyId request) = Inr policy"
    and "stakeAssets policy = a # rest"
  shows "fetchChangeQuote env request s =
           (if rq_currencyCode request \<noteq> a_currencyCode a
            then (Inl (Error ''Currency code mismatch between request and policy''), s)
            else if a_pluginId a \<noteq> w_pluginId (rq_wallet request)
            then (Inl (Error ''pluginId mismatch between request and policy''), s)
            else if rq_currencyCode request \<noteq> w_currencyCode (rq_wallet request)
            then (Inl (Error ''Only mainnet coins supported for staking''), s)
            else (case rq_action request of
                    Stake \<Rightarrow> stakeRequest env request policy s
                  | Unstake \<Rightarrow> unstakeRequest request policy s
                  | Claim \<Rightarrow> unstakeRequest request policy s
                  | UnstakeExact \<Rightarrow>
                      (Inl (TypeError ''changeQuoteFuncs[action] is not a function''), s)))"
  using assms by (simp add: fetchChangeQuote_def Let_def)

lemma fetchChangeQuote_stake:
  assumes "getPolicyFromId s (rq_stakePolicyId request) = Inr policy"
    and "stakeAssets policy = a # rest"
    and "rq_currencyCode request = a_currencyCode a"
    and "a_pluginId a = w_pluginId (rq_wallet request)"
    and "rq_currencyCode request = w_currencyCode (rq_wallet request)"
    and "rq_action request = Stake"
  shows "fetchChangeQuote env request s = stakeRequest env request policy s"
  using assms by (simp add: fetchChangeQuote_policy_found)

text \<open>The checks of \<^verbatim>\<open>stakeRequest\<close> once the plugin is known and the amount converts.\<close>

lemma stakeRequest_checks_converted:
  assumes "policyCurrencyInfos (w_pluginId (rq_wallet request)) = Some info"
    and "nativeToDenomination (rq_wallet request) (rq_nativeAmount request)
           (rq_currencyCode request) = Inr exchangeAmount"
  shows "stakeRequest_checks request =
           (if rq_nativeAmount request < minAmount info + 10000
            then Inl (MustStakeAtLeast exchangeAmount (rq_currencyCode request))
            else case balances (rq_wallet request) (rq_currencyCode request) of
                   None \<Rightarrow> Inl (TypeError ''Cannot read properties of undefined'')
                 | Some walletBalance \<Rightarrow>
                     if walletBalance < rq_nativeAmount request
                     then Inl (InsufficientFundsError (rq_currencyCode request))
                     else Inr (walletBalance, toFixed (mul_bs exchangeAmount THOR_LIMIT_UNITS) 0 0))"
  using assms
  by (simp add: stakeRequest_checks_def Let_def add_bs_def lt_bs_def
      TC_SAVERS_WITHDRAWAL_SCALE_UNITS_def split: option.split)

lemma stakeRequest_checks_failed:
  "stakeRequest_checks request = Inl e \<Longrightarrow> stakeRequest env request policy s = (Inl e, s)"
  by (simp add: stakeRequest_def Let_def)

text \<open>
  C8. When the wallet's plugin has a currency info and the amount is strictly below its
  minimum amount plus 10000, \<^verbatim>\<open>stakeRequest\<close> fails: with the wallet's error when the
  amount does not convert, with "Must stake at least" otherwise. The module's variables
  and the record of outside calls are as before, so no quote was fetched.
\<close>

theorem stakeRequest_below_minimum:
  assumes info: "policyCurrencyInfos (w_pluginId (rq_wallet request)) = Some info"
    and below: "rq_nativeAmount request < minAmount info + 10000"
  shows "stakeRequest env request policy s =
           (Inl (case nativeToDenomination (rq_wallet request) (rq_nativeAmount request)
                        (rq_currencyCode request) of
                   Inl e \<Rightarrow> e
                 | Inr exchangeAmount \<Rightarrow> MustStakeAtLeast exchangeAmount (rq_currencyCode request)), s)"
proof (cases "nativeToDenomination (rq_wallet request) (rq_nativeAmount request)
                (rq_currencyCode request)")
  case (Inl e)
  with info have "stakeRequest_checks request = Inl e"
    by (simp add: stakeRequest_checks_def Let_def)
  then show ?thesis
    using Inl by (simp add: stakeRequest_checks_failed)
next
  case (Inr exchangeAmount)
  with info below
  have "stakeRequest_checks request = Inl (MustStakeAtLeast exchangeAmount (rq_currencyCode request))"
    by (simp add: stakeRequest_checks_converted)
  then show ?thesis
    using Inr by (simp add: stakeRequest_checks_failed)
qed

text \<open>
  The minimum amounts by plugin: a stake must reach 20000 on bitcoin, bitcoin cash and
  litecoin, 10000 on ethereum and avalanche, and 100010000 on dogecoin.
\<close>

lemma minStakeAmount_by_plugin:
  "map (\<lambda>pluginId. map_option (\<lambda>info. add_bs (minAmount info) TC_SAVERS_WITHDRAWAL_SCALE_UNITS)
                     (policyCurrencyInfos pluginId))
     [''avalanche'', ''bitcoin'', ''bitcoincash'', ''dogecoin'', ''ethereum'', ''litecoin'', ''monero'']
   = [Some 10000, Some 20000, Some 20000, Some 100010000, Some 10000, Some 20000, None]"
  by (simp add: policyCurrencyInfos_def utxoInfo_def evmInfo_def add_bs_def
      TC_SAVERS_WITHDRAWAL_SCALE_UNITS_def)

text \<open>A bitcoin wallet holding 50000 asks to stake 19999, one below 10000 + 10000.\<close>

theorem stakeRequest_below_minimum_witness:
  "stakeRequest (exEnv [] [])
     (exRequest ''tcsavers/bitcoin:btc=bitcoin:btc'' ''BTC'' 19999 (exWallet 50000 50000))
     (mkPolicy ''tcsavers/bitcoin:btc=bitcoin:btc'' ''bitcoin'' ''BTC'') initialState
   = (Inl (MustStakeAtLeast (19999 / 100000000) ''BTC''), initialState)"
proof -
  let ?r = "exRequest ''tcsavers/bitcoin:btc=bitcoin:btc'' ''BTC'' 19999 (exWallet 50000 50000)"
  have h1: "policyCurrencyInfos (w_pluginId (rq_wallet ?r)) = Some utxoInfo"
    by (simp add: exRequest_simps exWallet_simps policyCurrencyInfos_def)
  have h2: "rq_nativeAmount ?r < minAmount utxoInfo + 10000"
    by (simp add: exRequest_simps utxoInfo_def)
  show ?thesis
    using stakeRequest_below_minimum [OF h1 h2, of "exEnv [] []"
        "mkPolicy ''tcsavers/bitcoin:btc=bitcoin:btc'' ''bitcoin'' ''BTC''" initialState]
    by (simp add: exRequest_simps exWallet_simps)
qed

text \<open>The funding step fails when the wallet cannot pay the amount and two fees.\<close>

lemma stakeRequest_funding_short:
  assumes "makeSpend (rq_wallet request)
             (fundingSpend primaryAddress (rq_nativeAmount request) None None) = Inr estimateTx"
    and "walletBalance - 2 * networkFee estimateTx - rq_nativeAmount request < 0"
  shows "stakeRequest_funding request walletBalance primaryAddress True fee s
           = (Inl (InsufficientFundsError (rq_currencyCode request)),
              emit (EvMakeSpend (fundingSpend primaryAddress (rq_nativeAmount request) None None)) s)"
  using assms
  by (simp add: stakeRequest_funding_def Let_def sub_bs_def mul_bs_def lt_bs_def mult.commute)

text \<open>
  C7. For a stake request that passes the validation of \<^verbatim>\<open>fetchChangeQuote\<close>, whose
  amount the wallet converts and is at least the minimum stake, and whose currency has a
  wallet balance: when the amount exceeds the balance, \<^verbatim>\<open>fetchChangeQuote\<close> fails with
  the \<^verbatim>\<open>InsufficientFundsError\<close> of the request's currency and nothing has left the
  plugin; and when the quote step succeeds, the primary address needs funding, the
  funding estimate succeeds and the balance less twice its fee and the amount is
  negative, it fails with that error too.
\<close>

theorem fetchChangeQuote_insufficient_funds:
  assumes "getPolicyFromId s (rq_stakePolicyId request) = Inr policy"
    and "stakeAssets policy = a # rest"
    and "rq_currencyCode request = a_currencyCode a"
    and "a_pluginId a = w_pluginId (rq_wallet request)"
    and "rq_currencyCode request = w_currencyCode (rq_wallet request)"
    and "rq_action request = Stake"
    and "policyCurrencyInfos (w_pluginId (rq_wallet request)) = Some info"
    and "nativeToDenomination (rq_wallet request) (rq_nativeAmount request)
           (rq_currencyCode request) = Inr exchangeAmount"
    and "minAmount info + 10000 \<le> rq_nativeAmount request"
    and "balances (rq_wallet request) (rq_currencyCode request) = Some walletBalance"
  shows "(walletBalance < rq_nativeAmount request \<longrightarrow>
            fetchChangeQuote env request s
              = (Inl (InsufficientFundsError (rq_currencyCode request)), s))
       \<and> (\<forall>primaryAddress addressBalance poolAddress slippage s1 fee s2 estimateTx.
            stakeRequest_quote env request (toFixed (mul_bs exchangeAmount THOR_LIMIT_UNITS) 0 0) s
              = (Inr (primaryAddress, addressBalance, poolAddress, slippage), s1)
            \<and> stakeRequest_estimate request primaryAddress addressBalance poolAddress s1
              = ((True, fee), s2)
            \<and> makeSpend (rq_wallet request)
                 (fundingSpend primaryAddress (rq_nativeAmount request) None None) = Inr estimateTx
            \<and> walletBalance - 2 * networkFee estimateTx - rq_nativeAmount request < 0
            \<longrightarrow> fst (fetchChangeQuote env request s)
                  = Inl (InsufficientFundsError (rq_currencyCode request)))"
proof -
  let ?thor = "toFixed (mul_bs exchangeAmount THOR_LIMIT_UNITS) 0 0"
  have stake: "fetchChangeQuote env request s = stakeRequest env request policy s"
    using assms(1-6) by (rule fetchChangeQuote_stake)
  have checks: "stakeRequest_checks request =
           (if walletBalance < rq_nativeAmount request
            then Inl (InsufficientFundsError (rq_currencyCode request))
            else Inr (walletBalance, ?thor))"
    using assms(7-10) by (simp add: stakeRequest_checks_converted)
  have first: "fetchChangeQuote env request s
              = (Inl (InsufficientFundsError (rq_currencyCode request)), s)"
    if "walletBalance < rq_nativeAmount request"
    using that by (simp add: stake checks stakeRequest_checks_failed)
  have second: "fst (fetchChangeQuote env request s)
                  = Inl (InsufficientFundsError (rq_currencyCode request))"
    if q: "stakeRequest_quote env request ?thor s
              = (Inr (primaryAddress, addressBalance, poolAddress, slippage), s1)"
      and e: "stakeRequest_estimate request primaryAddress addressBalance poolAddress s1
              = ((True, fee), s2)"
      and m: "makeSpend (rq_wallet request)
                 (fundingSpend primaryAddress (rq_nativeAmount request) None None) = Inr estimateTx"
      and r: "walletBalance - 2 * networkFee estimateTx - rq_nativeAmount request < 0"
    for primaryAddress addressBalance poolAddress slippage s1 fee s2 estimateTx
  proof (cases "walletBalance < rq_nativeAmount request")
    case True
    then show ?thesis by (simp add: first)
  next
    case False
    have f: "stakeRequest_funding request walletBalance primaryAddress True fee s2
           = (Inl (InsufficientFundsError (rq_currencyCode request)),
              emit (EvMakeSpend (fundingSpend primaryAddress (rq_nativeAmount request) None None)) s2)"
      using m r by (rule stakeRequest_funding_short)
    show ?thesis
      using False by (simp add: stake stakeRequest_def checks Let_def q e f)
  qed
  from first second show ?thesis by blast
qed

lemma updateInboundAddresses_ex:
  "fst (updateInboundAddresses (exEnv savers pools) initialState) = Inr ()"
  by (simp add: updateInboundAddresses_def refreshExchangeInfo_def useExchangeInfoServers_def
      exEnv_simps initialState_def emit_def exResponse_def asInboundAddresses_def Let_def
      INBOUND_ADDRESSES_UPDATE_FREQ_MS_def EXCHANGE_INFO_UPDATE_FREQ_MS_def)

lemma stakeRequest_quote_ex:
  "fst (stakeRequest_quote (exEnv savers pools)
          (exRequest policyId ''BTC'' nativeAmount (exWallet b c)) 25000 initialState)
     = Inr (''BC1QPRIMARY'', c, ''bc1qpool'', 100)"
proof -
  obtain s1 where u: "updateInboundAddresses (exEnv savers pools) initialState = (Inr (), s1)"
    using updateInboundAddresses_ex [of savers pools]
    by (cases "updateInboundAddresses (exEnv savers pools) initialState") simp
  have w: "getPrimaryAddress (exWallet b c) ''BTC'' s1
             = (Inr (''BC1QPRIMARY'', c), emit (EvGetReceiveAddress ''BTC'') s1)"
    by (simp add: getPrimaryAddress_def exWallet_def Let_def)
  have d: "div_bs (sub_bs 25000 24900) THOR_LIMIT_UNITS DIVIDE_PRECISION = Inr (1 / 1000000)"
    by (simp add: div_bs_def sub_bs_def truncate_at_def THOR_LIMIT_UNITS_def DIVIDE_PRECISION_def)
  show ?thesis
    by (simp add: stakeRequest_quote_def Let_def exRequest_simps u w exEnv_simps d exWallet_simps)
qed

text \<open>
  A bitcoin wallet holding 20000 asks to stake 25000; and one holding 30000, none of it
  on the primary address, asks to stake 25000, where the funding fee is 3000.
\<close>

theorem fetchChangeQuote_insufficient_funds_witness:
  "fetchChangeQuote (exEnv [] [])
     (exRequest ''tcsavers/bitcoin:btc=bitcoin:btc'' ''BTC'' 25000 (exWallet 20000 0)) initialState
     = (Inl (InsufficientFundsError ''BTC''), initialState)
   \<and> fst (fetchChangeQuote (exEnv [] [])
     (exRequest ''tcsavers/bitcoin:btc=bitcoin:btc'' ''BTC'' 25000 (exWallet 30000 0)) initialState)
     = Inl (InsufficientFundsError ''BTC'')"
proof -
  let ?E = "exEnv [] []"
  let ?id = "''tcsavers/bitcoin:btc=bitcoin:btc''"
  let ?policy = "mkPolicy ?id ''bitcoin'' ''BTC''"
  let ?a = "\<lparr>a_pluginId = ''bitcoin'', a_currencyCode = ''BTC''\<rparr>"
  let ?r = "\<lambda>b. exRequest ?id ''BTC'' 25000 (exWallet b 0)"
  let ?thor = "toFixed (mul_bs (25000 / 100000000) THOR_LIMIT_UNITS) 0 0"
  have h1: "getPolicyFromId initialState (rq_stakePolicyId (?r b)) = Inr ?policy" for b
    by (simp add: exRequest_simps getPolicyFromId_btc)
  have h2: "stakeAssets ?policy = ?a # []"
    by (simp add: mkPolicy_def)
  have h3: "rq_currencyCode (?r b) = a_currencyCode ?a" for b
    by (simp add: exRequest_simps)
  have h4: "a_pluginId ?a = w_pluginId (rq_wallet (?r b))" for b
    by (simp add: exRequest_simps exWallet_simps)
  have h5: "rq_currencyCode (?r b) = w_currencyCode (rq_wallet (?r b))" for b
    by (simp add: exRequest_simps exWallet_simps)
  have h6: "rq_action (?r b) = Stake" for b
    by (simp add: exRequest_simps)
  have h7: "policyCurrencyInfos (w_pluginId (rq_wallet (?r b))) = Some utxoInfo" for b
    by (simp add: exRequest_simps exWallet_simps policyCurrencyInfos_def)
  have h8: "nativeToDenomination (rq_wallet (?r b)) (rq_nativeAmount (?r b))
              (rq_currencyCode (?r b)) = Inr (25000 / 100000000)" for b
    by (simp add: exRequest_simps exWallet_simps)
  have h9: "minAmount utxoInfo + 10000 \<le> rq_nativeAmount (?r b)" for b
    by (simp add: exRequest_simps utxoInfo_def)
  have h10: "balances (rq_wallet (?r b)) (rq_currencyCode (?r b)) = Some b" for b
    by (simp add: exRequest_simps exWallet_simps)
  note T = fetchChangeQuote_insufficient_funds [OF h1 h2 h3 h4 h5 h6 h7 h8 h9 h10, of _ ?E]
  have less: "(20000::rat) < rq_nativeAmount (?r 20000)"
    by (simp add: exRequest_simps)
  from T [of 20000] less
  have "fetchChangeQuote ?E (?r 20000) initialState
          = (Inl (InsufficientFundsError (rq_currencyCode (?r 20000))), initialState)"
    by blast
  then have first: "fetchChangeQuote ?E (?r 20000) initialState
              = (Inl (InsufficientFundsError ''BTC''), initialState)"
    by (simp add: exRequest_simps)
  have t: "?thor = 25000"
    by (simp add: toFixed_def mul_bs_def truncate_at_def THOR_LIMIT_UNITS_def)
  obtain s1 where q: "stakeRequest_quote ?E (?r 30000) ?thor initialState
              = (Inr (''BC1QPRIMARY'', 0, ''bc1qpool'', 100), s1)"
    using stakeRequest_quote_ex [of "[]" "[]" ?id 25000 30000 0] unfolding t
    by (cases "stakeRequest_quote ?E (?r 30000) 25000 initialState") simp
  have e: "stakeRequest_estimate (?r 30000) ''BC1QPRIMARY'' 0 ''bc1qpool'' s1 = ((True, 0), s1)"
    by (simp add: stakeRequest_estimate_def Let_def exRequest_simps lt_bs_def)
  have m: "makeSpend (rq_wallet (?r 30000))
             (fundingSpend ''BC1QPRIMARY'' (rq_nativeAmount (?r 30000)) None None)
             = Inr \<lparr>networkFee = 3000, txid = ''estimate''\<rparr>"
    by (simp add: exRequest_simps exWallet_simps)
  have r: "30000 - 2 * networkFee \<lparr>networkFee = 3000, txid = ''estimate''\<rparr>
             - rq_nativeAmount (?r 30000) < 0"
    by (simp add: exRequest_simps)
  from T [of 30000] q e m r
  have "fst (fetchChangeQuote ?E (?r 30000) initialState)
          = Inl (InsufficientFundsError (rq_currencyCode (?r 30000)))"
    by blast
  then have second: "fst (fetchChangeQuote ?E (?r 30000) initialState)
                       = Inl (InsufficientFundsError ''BTC'')"
    by (simp add: exRequest_simps)
  from first second show ?thesis by simp
qed

text \<open>
  A stake request whose amount, 5000, exceeds the wallet's balance, 0, and is below the
  minimum stake of 20000: \<^verbatim>\<open>fetchChangeQuote\<close> fails with "Must stake at least", not with
  an \<^verbatim>\<open>InsufficientFundsError\<close>.
\<close>

theorem fetchChangeQuote_insufficient_funds_counterexample:
  "rq_action (exRequest ''tcsavers/bitcoin:btc=bitcoin:btc'' ''BTC'' 5000 (exWallet 0 0)) = Stake
   \<and> balances (exWallet 0 0) ''BTC'' = Some 0
   \<and> (0::rat) < 5000
   \<and> fetchChangeQuote (exEnv [] [])
        (exRequest ''tcsavers/bitcoin:btc=bitcoin:btc'' ''BTC'' 5000 (exWallet 0 0)) initialState
       = (Inl (MustStakeAtLeast (1 / 20000) ''BTC''), initialState)
   \<and> fst (fetchChangeQuote (exEnv [] [])
        (exRequest ''tcsavers/bitcoin:btc=bitcoin:btc'' ''BTC'' 5000 (exWallet 0 0)) initialState)
       \<noteq> Inl (InsufficientFundsError ''BTC'')"
proof -
  let ?r = "exRequest ''tcsavers/bitcoin:btc=bitcoin:btc'' ''BTC'' 5000 (exWallet 0 0)"
  have i: "policyCurrencyInfos ''bitcoin'' = Some utxoInfo"
    by (simp add: policyCurrencyInfos_def)
  have c: "stakeRequest_checks ?r = Inl (MustStakeAtLeast (1 / 20000) ''BTC'')"
    by (simp add: stakeRequest_checks_def Let_def exRequest_simps exWallet_simps i utxoInfo_def
        add_bs_def lt_bs_def TC_SAVERS_WITHDRAWAL_SCALE_UNITS_def)
  have "fetchChangeQuote (exEnv [] []) ?r initialState
       = (Inl (MustStakeAtLeast (1 / 20000) ''BTC''), initialState)"
    by (simp add: fetchChangeQuote_def Let_def exRequest_simps exWallet_simps getPolicyFromId_btc
        mkPolicy_def stakeRequest_def c)
  then show ?thesis
    by (simp add: exRequest_simps exWallet_simps)
qed

section \<open>Properties of \<^verbatim>\<open>fetchStakePosition\<close>\<close>

lemma truncate_at_nonpos:
  assumes "x \<le> 0"
  shows "truncate_at p x \<le> 0"
proof (cases "x = 0")
  case True
  then show ?thesis by (simp add: truncate_at_def)
next
  case False
  from assms have "0 \<le> - x * 10 ^ p"
    by (simp add: mult_nonpos_nonneg)
  then have "0 \<le> \<lfloor>- x * 10 ^ p\<rfloor>" by simp
  then have "0 \<le> (of_int \<lfloor>- x * 10 ^ p\<rfloor> :: rat) / 10 ^ p" by simp
  with False assms show ?thesis by (simp add: truncate_at_def)
qed

lemma div_THOR_LIMIT_UNITS:
  "div_bs x THOR_LIMIT_UNITS p = Inr (truncate_at p (x / 100000000))"
  by (simp add: div_bs_def THOR_LIMIT_UNITS_def)

lemma positionAmounts_absent:
  "saver = None \<or> pool = None \<Longrightarrow> positionAmounts wallet currencyCode saver pool = Inr (0, 0)"
  by (auto simp: positionAmounts_def split: option.splits)

lemma positionAmounts_earned_nonneg:
  "positionAmounts wallet currencyCode saver pool = Inr (staked, earned) \<Longrightarrow> 0 \<le> earned"
  by (auto simp: positionAmounts_def max_bs_def split: option.splits sum.splits if_splits)

lemma positionAmounts_capped:
  assumes "positionAmounts wallet currencyCode (Some sv) (Some pl) = Inr (staked, earned)"
    and "redeemableValue sv pl = Inr redeemable"
    and "redeemable < asset_deposit_value sv"
    and sign: "\<forall>x c y. x \<le> 0 \<and> denominationToNative wallet x c = Inr y \<longrightarrow> y \<le> 0"
  shows "earned = 0"
proof -
  let ?e = "truncate_at DIVIDE_PRECISION (sub_bs redeemable (asset_deposit_value sv) / 100000000)"
  from assms(1,2) obtain earnedNative where
    n: "denominationToNative wallet ?e currencyCode = Inr earnedNative"
    and e: "earned = max_bs (toFixed earnedNative 0 0) 0"
    by (auto simp: positionAmounts_def div_THOR_LIMIT_UNITS split: sum.splits)
  from assms(3) have "?e \<le> 0"
    by (intro truncate_at_nonpos) (simp add: sub_bs_def)
  with sign n have "earnedNative \<le> 0" by blast
  then have "toFixed earnedNative 0 0 \<le> 0"
    by (simp add: toFixed_def truncate_at_nonpos)
  with e show ?thesis by (simp add: max_bs_def)
qed

text \<open>What a successful \<^verbatim>\<open>fetchStakePosition\<close> returns, from what it fetched.\<close>

lemma fetchStakePosition_Inr:
  assumes "fetchStakePosition env request s = (Inr position, s')"
  obtains d staked earned where
    "fetchStakePosition_data env request s = (Inr d, s')"
    "positionAmounts (pr_wallet request) (pd_currencyCode d) (findSaver d) (findPool d)
       = Inr (staked, earned)"
    "position = \<lparr>allocations =
        [\<lparr>p_pluginId = pd_pluginId d, p_currencyCode = pd_currencyCode d,
          p_allocationType = Staked, p_nativeAmount = staked\<rparr>,
         \<lparr>p_pluginId = pd_pluginId d, p_currencyCode = pd_currencyCode d,
          p_allocationType = Earned, p_nativeAmount = earned\<rparr>],
       canStake = True, canUnstake = True, canClaim = True\<rparr>"
  using assms
  by (auto simp: fetchStakePosition_def split: prod.splits sum.splits)

text \<open>
  C9. In the position a successful \<^verbatim>\<open>fetchStakePosition\<close> returns, the second allocation
  is the earned one and its amount is not negative. When a saver and a pool were found
  and the redeemable value (the saver's units times the pool's savers depth over its
  savers units) is less than the deposit value, the earned amount is 0, for a wallet
  whose conversion to native units turns no amount that is not positive into a positive
  one.
\<close>

theorem fetchStakePosition_earned_not_negative:
  assumes "fetchStakePosition env request s = (Inr position, s')"
  shows "(\<exists>staked earned. allocations position = [staked, earned]
            \<and> p_allocationType staked = Staked \<and> p_allocationType earned = Earned
            \<and> 0 \<le> p_nativeAmount earned)
       \<and> (\<forall>d s1 sv pl redeemable.
            fetchStakePosition_data env request s = (Inr d, s1)
            \<and> findSaver d = Some sv \<and> findPool d = Some pl
            \<and> redeemableValue sv pl = Inr redeemable
            \<and> redeemable < asset_deposit_value sv
            \<and> (\<forall>x c y. x \<le> 0 \<and> denominationToNative (pr_wallet request) x c = Inr y \<longrightarrow> y \<le> 0)
            \<longrightarrow> map p_nativeAmount
                  (filter (\<lambda>a. p_allocationType a = Earned) (allocations position)) = [0])"
proof -
  from assms obtain d staked earned where
    d: "fetchStakePosition_data env request s = (Inr d, s')"
    and a: "positionAmounts (pr_wallet request) (pd_currencyCode d) (findSaver d) (findPool d)
              = Inr (staked, earned)"
    and p: "position = \<lparr>allocations =
        [\<lparr>p_pluginId = pd_pluginId d, p_currencyCode = pd_currencyCode d,
          p_allocationType = Staked, p_nativeAmount = staked\<rparr>,
         \<lparr>p_pluginId = pd_pluginId d, p_currencyCode = pd_currencyCode d,
          p_allocationType = Earned, p_nativeAmount = earned\<rparr>],
       canStake = True, canUnstake = True, canClaim = True\<rparr>"
    by (rule fetchStakePosition_Inr)
  have "0 \<le> earned" using a by (rule positionAmounts_earned_nonneg)
  then have first: "\<exists>staked earned. allocations position = [staked, earned]
            \<and> p_allocationType staked = Staked \<and> p_allocationType earned = Earned
            \<and> 0 \<le> p_nativeAmount earned"
    by (simp add: p)
  have second: "map p_nativeAmount
                  (filter (\<lambda>a. p_allocationType a = Earned) (allocations position)) = [0]"
    if "fetchStakePosition_data env request s = (Inr d', s1)"
      and "findSaver d' = Some sv" and "findPool d' = Some pl"
      and "redeemableValue sv pl = Inr redeemable"
      and "redeemable < asset_deposit_value sv"
      and "\<forall>x c y. x \<le> 0 \<and> denominationToNative (pr_wallet request) x c = Inr y \<longrightarrow> y \<le> 0"
    for d' s1 sv pl redeemable
  proof -
    from that(1) d have "d' = d" by simp
    with a that have "earned = 0"
      by (intro positionAmounts_capped [of "pr_wallet request" "pd_currencyCode d" sv pl
            staked earned redeemable]) simp_all
    then show ?thesis by (simp add: p)
  qed
  from first second show ?thesis by blast
qed

lemma toLowerCase_ex:
  "toLowerCase ''BC1QPRIMARY'' = ''bc1qprimary''"
  "toLowerCase ''bc1qprimary'' = ''bc1qprimary''"
  "toLowerCase ''bc1qother'' = ''bc1qother''"
  by (simp_all add: toLowerCase_def lowerOf_def)

lemma policies_refreshExchangeInfo:
  "policies (refreshExchangeInfo env s) = policies s"
  by (simp add: refreshExchangeInfo_def emit_def Let_def split: sum.split)

lemma policies_useExchangeInfoServers:
  "policies (useExchangeInfoServers s) = policies s"
  by (simp add: useExchangeInfoServers_def split: option.split)

text \<open>\<^verbatim>\<open>updateInboundAddresses\<close> leaves the policies alone.\<close>

lemma updateInboundAddresses_policies:
  "policies (snd (updateInboundAddresses env s)) = policies s"
  by (simp add: updateInboundAddresses_def Let_def emit_def policies_refreshExchangeInfo
      policies_useExchangeInfoServers split: sum.split)

lemma fetchStakePosition_data_ex:
  "fst (fetchStakePosition_data (exEnv savers pools) exPositionRequest initialState)
     = Inr \<lparr>pd_pluginId = ''bitcoin'', pd_currencyCode = ''BTC'', pd_asset = ''BTC.BTC'',
            pd_primaryAddress = ''BC1QPRIMARY'', pd_savers = savers, pd_pools = pools\<rparr>"
proof -
  obtain s1 where u: "updateInboundAddresses (exEnv savers pools) initialState = (Inr (), s1)"
    using updateInboundAddresses_ex [of savers pools]
    by (cases "updateInboundAddresses (exEnv savers pools) initialState") simp
  have "policies s1 = policies0"
    using updateInboundAddresses_policies [of "exEnv savers pools" initialState] u
    by (simp add: initialState_def)
  then have p: "getPolicyFromId s1 ''tcsavers/bitcoin:btc=bitcoin:btc''
                  = Inr (mkPolicy ''tcsavers/bitcoin:btc=bitcoin:btc'' ''bitcoin'' ''BTC'')"
    by (simp add: getPolicyFromId_def policies0_def mkPolicy_def)
  have w: "getPrimaryAddress (exWallet 0 0) ''BTC'' s1
             = (Inr (''BC1QPRIMARY'', 0), emit (EvGetReceiveAddress ''BTC'') s1)"
    by (simp add: getPrimaryAddress_def exWallet_def Let_def)
  have m: "template (MAINNET_CODE_TRANSCRIPTION ''bitcoin'') = ''BTC''"
    by (simp add: MAINNET_CODE_TRANSCRIPTION_def template_def)
  have r: "readResponse what asSavers (exResponse (JSavers savers)) = Inr savers"
    "readResponse what asPools (exResponse (JPools pools)) = Inr pools" for what
    by (simp_all add: readResponse_def exResponse_def asSavers_def asPools_def)
  have q: "pr_stakePolicyId exPositionRequest = ''tcsavers/bitcoin:btc=bitcoin:btc''"
    "pr_wallet exPositionRequest = exWallet 0 0"
    by (simp_all add: exPositionRequest_def)
  have a: "stakeAssets (mkPolicy ''tcsavers/bitcoin:btc=bitcoin:btc'' ''bitcoin'' ''BTC'')
             = [\<lparr>a_pluginId = ''bitcoin'', a_currencyCode = ''BTC''\<rparr>]"
    by (simp add: mkPolicy_def)
  show ?thesis
    by (simp add: fetchStakePosition_data_def u q p a w m r exEnv_simps Let_def)
qed

lemma positionAmounts_ex:
  "positionAmounts (exWallet 0 0) ''BTC''
     (Some (exSaver ''bc1qprimary'' 100 100)) (Some (exPool ''BTC.BTC'' 900 1000)) = Inr (100, 0)"
  by (simp add: positionAmounts_def redeemableValue_def div_bs_def mul_bs_def sub_bs_def
      max_bs_def toFixed_def truncate_at_def exSaver_def exPool_def exWallet_def
      DIVIDE_PRECISION_def THOR_LIMIT_UNITS_def)

text \<open>
  A saver of the primary address with 100 units and a deposit of 100, in a pool whose
  1000 savers units are worth 900: the redeemable value is 90, the earned amount 0.
\<close>

theorem fetchStakePosition_earned_not_negative_witness:
  "fst (fetchStakePosition (exEnv [exSaver ''bc1qprimary'' 100 100] [exPool ''BTC.BTC'' 900 1000])
          exPositionRequest initialState)
     = Inr \<lparr>allocations =
              [\<lparr>p_pluginId = ''bitcoin'', p_currencyCode = ''BTC'',
                p_allocationType = Staked, p_nativeAmount = 100\<rparr>,
               \<lparr>p_pluginId = ''bitcoin'', p_currencyCode = ''BTC'',
                p_allocationType = Earned, p_nativeAmount = 0\<rparr>],
            canStake = True, canUnstake = True, canClaim = True\<rparr>
   \<and> redeemableValue (exSaver ''bc1qprimary'' 100 100) (exPool ''BTC.BTC'' 900 1000) = Inr 90
   \<and> (\<exists>staked earned.
         allocations (projr (fst (fetchStakePosition
            (exEnv [exSaver ''bc1qprimary'' 100 100] [exPool ''BTC.BTC'' 900 1000])
            exPositionRequest initialState))) = [staked, earned]
         \<and> p_allocationType staked = Staked \<and> p_allocationType earned = Earned
         \<and> 0 \<le> p_nativeAmount earned)
   \<and> map p_nativeAmount (filter (\<lambda>a. p_allocationType a = Earned)
         (allocations (projr (fst (fetchStakePosition
            (exEnv [exSaver ''bc1qprimary'' 100 100] [exPool ''BTC.BTC'' 900 1000])
            exPositionRequest initialState))))) = [0]"
proof -
  let ?sv = "exSaver ''bc1qprimary'' 100 100"
  let ?pl = "exPool ''BTC.BTC'' 900 1000"
  let ?E = "exEnv [?sv] [?pl]"
  let ?d = "\<lparr>pd_pluginId = ''bitcoin'', pd_currencyCode = ''BTC'', pd_asset = ''BTC.BTC'',
            pd_primaryAddress = ''BC1QPRIMARY'', pd_savers = [?sv], pd_pools = [?pl]\<rparr>"
  let ?run = "fetchStakePosition ?E exPositionRequest initialState"
  let ?pos = "\<lparr>allocations =
              [\<lparr>p_pluginId = ''bitcoin'', p_currencyCode = ''BTC'',
                p_allocationType = Staked, p_nativeAmount = 100\<rparr>,
               \<lparr>p_pluginId = ''bitcoin'', p_currencyCode = ''BTC'',
                p_allocationType = Earned, p_nativeAmount = 0\<rparr>],
            canStake = True, canUnstake = True, canClaim = True\<rparr>"
  obtain s1 where d: "fetchStakePosition_data ?E exPositionRequest initialState = (Inr ?d, s1)"
    using fetchStakePosition_data_ex [of "[?sv]" "[?pl]"]
    by (cases "fetchStakePosition_data ?E exPositionRequest initialState") simp
  have sv: "findSaver ?d = Some ?sv"
    by (simp add: findSaver_def exSaver_def toLowerCase_ex)
  have pl: "findPool ?d = Some ?pl"
    by (simp add: findPool_def exPool_def)
  have w: "pr_wallet exPositionRequest = exWallet 0 0"
    by (simp add: exPositionRequest_def)
  have run: "?run = (Inr ?pos, s1)"
    by (simp add: fetchStakePosition_def d sv pl w positionAmounts_ex)
  have r: "redeemableValue ?sv ?pl = Inr 90"
    by (simp add: redeemableValue_def div_bs_def mul_bs_def truncate_at_def exSaver_def
        exPool_def DIVIDE_PRECISION_def)
  have lt: "(90::rat) < asset_deposit_value ?sv"
    by (simp add: exSaver_def)
  have sign: "\<forall>x c y. x \<le> 0 \<and> denominationToNative (pr_wallet exPositionRequest) x c = Inr y
                \<longrightarrow> y \<le> 0"
    by (auto simp: exPositionRequest_def exWallet_def mult_le_0_iff)
  from fetchStakePosition_earned_not_negative [OF run] d sv pl r lt sign
  have "(\<exists>staked earned. allocations ?pos = [staked, earned]
            \<and> p_allocationType staked = Staked \<and> p_allocationType earned = Earned
            \<and> 0 \<le> p_nativeAmount earned)
     \<and> map p_nativeAmount (filter (\<lambda>a. p_allocationType a = Earned) (allocations ?pos)) = [0]"
    by blast
  with run r show ?thesis by simp
qed

text \<open>
  C10. In the position a successful \<^verbatim>\<open>fetchStakePosition\<close> returns, \<^verbatim>\<open>canStake\<close>,
  \<^verbatim>\<open>canUnstake\<close> and \<^verbatim>\<open>canClaim\<close> are true; and when no fetched saver has the wallet's
  primary address, compared in lower case, or no fetched pool has the policy's asset,
  the allocations are a staked amount of 0 and an earned amount of 0.
\<close>

theorem fetchStakePosition_no_saver_or_pool:
  assumes "fetchStakePosition env request s = (Inr position, s')"
  shows "canStake position \<and> canUnstake position \<and> canClaim position
       \<and> (\<forall>d s1.
            fetchStakePosition_data env request s = (Inr d, s1)
            \<and> ((\<forall>sv\<in>set (pd_savers d).
                   toLowerCase (asset_address sv) \<noteq> toLowerCase (pd_primaryAddress d))
               \<or> (\<forall>pl\<in>set (pd_pools d). pl_asset pl \<noteq> pd_asset d))
            \<longrightarrow> map (\<lambda>a. (p_allocationType a, p_nativeAmount a)) (allocations position)
                  = [(Staked, 0), (Earned, 0)])"
proof -
  from assms obtain d staked earned where
    d: "fetchStakePosition_data env request s = (Inr d, s')"
    and a: "positionAmounts (pr_wallet request) (pd_currencyCode d) (findSaver d) (findPool d)
              = Inr (staked, earned)"
    and p: "position = \<lparr>allocations =
        [\<lparr>p_pluginId = pd_pluginId d, p_currencyCode = pd_currencyCode d,
          p_allocationType = Staked, p_nativeAmount = staked\<rparr>,
         \<lparr>p_pluginId = pd_pluginId d, p_currencyCode = pd_currencyCode d,
          p_allocationType = Earned, p_nativeAmount = earned\<rparr>],
       canStake = True, canUnstake = True, canClaim = True\<rparr>"
    by (rule fetchStakePosition_Inr)
  have flags: "canStake position \<and> canUnstake position \<and> canClaim position"
    by (simp add: p)
  have zero: "map (\<lambda>a. (p_allocationType a, p_nativeAmount a)) (allocations position)
                  = [(Staked, 0), (Earned, 0)]"
    if "fetchStakePosition_data env request s = (Inr d', s1)"
      and "(\<forall>sv\<in>set (pd_savers d').
                   toLowerCase (asset_address sv) \<noteq> toLowerCase (pd_primaryAddress d'))
               \<or> (\<forall>pl\<in>set (pd_pools d'). pl_asset pl \<noteq> pd_asset d')"
    for d' s1
  proof -
    from that(1) d have "d' = d" by simp
    with that(2) have "findSaver d = None \<or> findPool d = None"
      by (auto simp: findSaver_def findPool_def find_None_iff)
    then have "positionAmounts (pr_wallet request) (pd_currencyCode d) (findSaver d) (findPool d)
                 = Inr (0, 0)"
      by (rule positionAmounts_absent)
    with a have "staked = 0" "earned = 0" by simp_all
    then show ?thesis by (simp add: p)
  qed
  from flags zero show ?thesis by blast
qed

text \<open>The only saver fetched has another address than the wallet's primary one.\<close>

theorem fetchStakePosition_no_saver_or_pool_witness:
  "fst (fetchStakePosition (exEnv [exSaver ''bc1qother'' 100 100] [exPool ''BTC.BTC'' 900 1000])
          exPositionRequest initialState)
     = Inr \<lparr>allocations =
              [\<lparr>p_pluginId = ''bitcoin'', p_currencyCode = ''BTC'',
                p_allocationType = Staked, p_nativeAmount = 0\<rparr>,
               \<lparr>p_pluginId = ''bitcoin'', p_currencyCode = ''BTC'',
                p_allocationType = Earned, p_nativeAmount = 0\<rparr>],
            canStake = True, canUnstake = True, canClaim = True\<rparr>
   \<and> canStake (projr (fst (fetchStakePosition
         (exEnv [exSaver ''bc1qother'' 100 100] [exPool ''BTC.BTC'' 900 1000])
         exPositionRequest initialState)))
   \<and> canUnstake (projr (fst (fetchStakePosition
         (exEnv [exSaver ''bc1qother'' 100 100] [exPool ''BTC.BTC'' 900 1000])
         exPositionRequest initialState)))
   \<and> canClaim (projr (fst (fetchStakePosition
         (exEnv [exSaver ''bc1qother'' 100 100] [exPool ''BTC.BTC'' 900 1000])
         exPositionRequest initialState)))
   \<and> map (\<lambda>a. (p_allocationType a, p_nativeAmount a))
       (allocations (projr (fst (fetchStakePosition
         (exEnv [exSaver ''bc1qother'' 100 100] [exPool ''BTC.BTC'' 900 1000])
         exPositionRequest initialState))))
      = [(Staked, 0), (Earned, 0)]"
proof -
  let ?sv = "exSaver ''bc1qother'' 100 100"
  let ?pl = "exPool ''BTC.BTC'' 900 1000"
  let ?E = "exEnv [?sv] [?pl]"
  let ?d = "\<lparr>pd_pluginId = ''bitcoin'', pd_currencyCode = ''BTC'', pd_asset = ''BTC.BTC'',
            pd_primaryAddress = ''BC1QPRIMARY'', pd_savers = [?sv], pd_pools = [?pl]\<rparr>"
  let ?run = "fetchStakePosition ?E exPositionRequest initialState"
  let ?pos = "\<lparr>allocations =
              [\<lparr>p_pluginId = ''bitcoin'', p_currencyCode = ''BTC'',
                p_allocationType = Staked, p_nativeAmount = 0\<rparr>,
               \<lparr>p_pluginId = ''bitcoin'', p_currencyCode = ''BTC'',
                p_allocationType = Earned, p_nativeAmount = 0\<rparr>],
            canStake = True, canUnstake = True, canClaim = True\<rparr>"
  obtain s1 where d: "fetchStakePosition_data ?E exPositionRequest initialState = (Inr ?d, s1)"
    using fetchStakePosition_data_ex [of "[?sv]" "[?pl]"]
    by (cases "fetchStakePosition_data ?E exPositionRequest initialState") simp
  have sv: "findSaver ?d = None"
    by (simp add: findSaver_def exSaver_def toLowerCase_ex)
  have run: "?run = (Inr ?pos, s1)"
    by (simp add: fetchStakePosition_def d sv positionAmounts_absent)
  have none: "(\<forall>sv\<in>set (pd_savers ?d).
                   toLowerCase (asset_address sv) \<noteq> toLowerCase (pd_primaryAddress ?d))
               \<or> (\<forall>pl\<in>set (pd_pools ?d). pl_asset pl \<noteq> pd_asset ?d)"
    by (simp add: exSaver_def toLowerCase_ex)
  from fetchStakePosition_no_saver_or_pool [OF run] d none
  have "canStake ?pos \<and> canUnstake ?pos \<and> canClaim ?pos
     \<and> map (\<lambda>a. (p_allocationType a, p_nativeAmount a)) (allocations ?pos)
                  = [(Staked, 0), (Earned, 0)]"
    by blast
  with run show ?thesis by simp
qed

end
